theory Spec2Isabelle
  imports Complex_Main
begin

section \<open>Floating-point values\<close>

text \<open>
  The indicator columns of the data frame hold IEEE doubles. What the strategy depends on
  is the special values: a rolling window that is not full yields NaN, a division by a
  zero average yields an infinity or NaN, and every comparison with NaN is false. A value
  is therefore NaN, an infinity, or a finite number. The operations below are exact on
  finite numbers, and zero carries no sign; the indicator pipeline uses them as they are,
  the backtest simulator rounds every result to a double.
\<close>

datatype fval = NaN | NInf | Fin real | PInf

text \<open>\<open>a < b\<close> on doubles: false as soon as one side is NaN.\<close>

fun flt :: "fval \<Rightarrow> fval \<Rightarrow> bool" where
  "flt NaN _ = False"
| "flt _ NaN = False"
| "flt (Fin a) (Fin b) = (a < b)"
| "flt NInf NInf = False"
| "flt NInf _ = True"
| "flt _ NInf = False"
| "flt PInf _ = False"
| "flt (Fin a) PInf = True"

text \<open>\<open>a <= b\<close> on doubles.\<close>

fun fle :: "fval \<Rightarrow> fval \<Rightarrow> bool" where
  "fle NaN _ = False"
| "fle _ NaN = False"
| "fle (Fin a) (Fin b) = (a \<le> b)"
| "fle NInf _ = True"
| "fle PInf PInf = True"
| "fle PInf _ = False"
| "fle (Fin a) PInf = True"
| "fle (Fin a) NInf = False"

definition fgt :: "fval \<Rightarrow> fval \<Rightarrow> bool" where
  "fgt a b = flt b a"

definition fge :: "fval \<Rightarrow> fval \<Rightarrow> bool" where
  "fge a b = fle b a"

fun fneg :: "fval \<Rightarrow> fval" where
  "fneg NaN = NaN"
| "fneg NInf = PInf"
| "fneg PInf = NInf"
| "fneg (Fin a) = Fin (- a)"

fun fadd :: "fval \<Rightarrow> fval \<Rightarrow> fval" where
  "fadd NaN _ = NaN"
| "fadd _ NaN = NaN"
| "fadd (Fin a) (Fin b) = Fin (a + b)"
| "fadd PInf NInf = NaN"
| "fadd NInf PInf = NaN"
| "fadd PInf _ = PInf"
| "fadd NInf _ = NInf"
| "fadd (Fin a) b = b"

definition fsub :: "fval \<Rightarrow> fval \<Rightarrow> fval" where
  "fsub a b = fadd a (fneg b)"

text \<open>The sign of a value that is not NaN, zero counting as positive.\<close>

fun fnonneg :: "fval \<Rightarrow> bool" where
  "fnonneg (Fin a) = (0 \<le> a)"
| "fnonneg PInf = True"
| "fnonneg _ = False"

fun fmul :: "fval \<Rightarrow> fval \<Rightarrow> fval" where
  "fmul NaN _ = NaN"
| "fmul _ NaN = NaN"
| "fmul (Fin a) (Fin b) = Fin (a * b)"
| "fmul (Fin a) b = (if a = 0 then NaN else if (0 < a) = fnonneg b then PInf else NInf)"
| "fmul a (Fin b) = (if b = 0 then NaN else if (0 < b) = fnonneg a then PInf else NInf)"
| "fmul a b = (if fnonneg a = fnonneg b then PInf else NInf)"

text \<open>
  Division as numpy performs it on doubles: no exception, a nonzero number over zero is
  an infinity, zero over zero and infinity over infinity are NaN.
\<close>

fun fdiv :: "fval \<Rightarrow> fval \<Rightarrow> fval" where
  "fdiv NaN _ = NaN"
| "fdiv _ NaN = NaN"
| "fdiv (Fin a) (Fin b) =
     (if b \<noteq> 0 then Fin (a / b)
      else if a = 0 then NaN else if 0 < a then PInf else NInf)"
| "fdiv (Fin a) b = Fin 0"
| "fdiv a (Fin b) = (if (0 \<le> b) = fnonneg a then PInf else NInf)"
| "fdiv a b = NaN"


section \<open>Bars and indicator rows\<close>

text \<open>
  A bar series is the data frame \<open>bars\<close>: one row per bar, in ascending time. Prices and
  volumes delivered by the data source are finite numbers.
\<close>

record bar =
  timestamp :: int
  open_price :: real
  high :: real
  low :: real
  close :: real
  volume :: real

text \<open>
  The indicator pipeline adds columns to a copy of the frame, so an indicator row is a
  bar extended by the derived columns.
\<close>

record row = bar +
  rsi :: fval
  macd :: fval
  macd_signal :: fval
  macd_hist :: fval
  bb_middle :: fval
  bb_upper :: fval
  bb_lower :: fval
  ema_fast :: fval
  ema_slow :: fval
  volume_ma :: fval
  volume_signal :: int

datatype signal = BUY | SELL | HOLD

section \<open>Series operations of the data-frame library\<close>

text \<open>\<open>Series.diff()\<close>: the first entry has no predecessor and is NaN.\<close>

fun diff :: "real list \<Rightarrow> fval list" where
  "diff [] = []"
| "diff (x # xs) = NaN # map (\<lambda>(a, b). Fin (b - a)) (zip (x # xs) xs)"

text \<open>\<open>Series.shift(1)\<close>: every entry moves one row down, the first row is NaN.\<close>

fun shift1 :: "real list \<Rightarrow> fval list" where
  "shift1 [] = []"
| "shift1 (x # xs) = NaN # map Fin (butlast (x # xs))"

text \<open>
  \<open>delta.where(cond, 0)\<close> keeps an entry where the condition holds and puts 0 elsewhere;
  the condition is a comparison, so it is false on NaN and the NaN becomes 0.
\<close>

fun where_pos :: "fval \<Rightarrow> real" where
  "where_pos (Fin d) = (if 0 < d then d else 0)"
| "where_pos _ = 0"

fun where_neg :: "fval \<Rightarrow> real" where
  "where_neg (Fin d) = (if d < 0 then d else 0)"
| "where_neg _ = 0"

text \<open>The trailing window of \<open>w\<close> entries that ends at index \<open>i\<close>.\<close>

definition window :: "nat \<Rightarrow> 'a list \<Rightarrow> nat \<Rightarrow> 'a list" where
  "window w xs i = take w (drop (Suc i - w) xs)"

definition mean :: "real list \<Rightarrow> real" where
  "mean xs = sum_list xs / real (length xs)"

text \<open>
  \<open>Series.rolling(window=w).mean()\<close>: NaN until \<open>w\<close> observations are available
  (the minimum number of periods defaults to the window size).
\<close>

definition rolling_mean :: "nat \<Rightarrow> real list \<Rightarrow> fval list" where
  "rolling_mean w xs =
     map (\<lambda>i. if Suc i < w then NaN else Fin (mean (window w xs i))) [0..<length xs]"

text \<open>
  \<open>Series.rolling(window=w).std()\<close>: the library's default is one delta degree of
  freedom, the sum of squared deviations is divided by \<open>w - 1\<close>.
\<close>

definition std_ddof1 :: "real list \<Rightarrow> fval" where
  "std_ddof1 xs =
     (if length xs \<le> 1 then NaN
      else Fin (sqrt (sum_list (map (\<lambda>x. (x - mean xs)\<^sup>2) xs) / real (length xs - 1))))"

definition rolling_std :: "nat \<Rightarrow> real list \<Rightarrow> fval list" where
  "rolling_std w xs =
     map (\<lambda>i. if Suc i < w then NaN else std_ddof1 (window w xs i)) [0..<length xs]"

text \<open>
  \<open>Series.ewm(span=s, adjust=False).mean()\<close>: the recursion
  \<open>y\<^sub>0 = x\<^sub>0\<close>, \<open>y\<^sub>t = (1 - \<alpha>) y\<^sub>t\<^sub>-\<^sub>1 + \<alpha> x\<^sub>t\<close> with \<open>\<alpha> = 2 / (s + 1)\<close>.
\<close>

fun ewm_from :: "real \<Rightarrow> real \<Rightarrow> real list \<Rightarrow> real list" where
  "ewm_from \<alpha> y [] = []"
| "ewm_from \<alpha> y (x # xs) = ((1 - \<alpha>) * y + \<alpha> * x) # ewm_from \<alpha> ((1 - \<alpha>) * y + \<alpha> * x) xs"

fun ewm_mean :: "nat \<Rightarrow> real list \<Rightarrow> real list" where
  "ewm_mean s [] = []"
| "ewm_mean s (x # xs) = x # ewm_from (2 / (real s + 1)) x xs"


section \<open>The indicator pipeline\<close>

text \<open>
  Each \<open>calculate_\<close> method receives the frame and returns it with its columns written.
  \<open>set_col\<close> writes one column, row by row.
\<close>

definition set_col :: "('a \<Rightarrow> row \<Rightarrow> row) \<Rightarrow> 'a list \<Rightarrow> row list \<Rightarrow> row list" where
  "set_col upd col df = map (\<lambda>(r, v). upd v r) (zip df col)"

text \<open>The body of \<open>calculate_rsi\<close>, on the column \<open>close\<close>.\<close>

definition rsi_series :: "nat \<Rightarrow> real list \<Rightarrow> fval list" where
  "rsi_series period closes =
     (let delta = diff closes;
          gain = rolling_mean period (map where_pos delta);
          loss = rolling_mean period (map (\<lambda>d. - where_neg d) delta);
          rs = map (\<lambda>(g, l). fdiv g l) (zip gain loss)
      in map (\<lambda>q. fsub (Fin 100) (fdiv (Fin 100) (fadd (Fin 1) q))) rs)"

definition calculate_rsi :: "nat \<Rightarrow> row list \<Rightarrow> row list" where
  "calculate_rsi period df = set_col (\<lambda>v r. r\<lparr>rsi := v\<rparr>) (rsi_series period (map close df)) df"

definition macd_series :: "nat \<Rightarrow> nat \<Rightarrow> real list \<Rightarrow> real list" where
  "macd_series fast slow closes =
     (let ema_f = ewm_mean fast closes;
          ema_s = ewm_mean slow closes
      in map (\<lambda>(a, b). a - b) (zip ema_f ema_s))"

definition calculate_macd :: "nat \<Rightarrow> nat \<Rightarrow> nat \<Rightarrow> row list \<Rightarrow> row list" where
  "calculate_macd fast slow sig df =
     (let m = macd_series fast slow (map close df);
          df1 = set_col (\<lambda>v r. r\<lparr>macd := Fin v\<rparr>) m df;
          sg = ewm_mean sig m;
          df2 = set_col (\<lambda>v r. r\<lparr>macd_signal := Fin v\<rparr>) sg df1
      in set_col (\<lambda>v r. r\<lparr>macd_hist := Fin v\<rparr>) (map (\<lambda>(a, b). a - b) (zip m sg)) df2)"

definition bb_upper_series :: "nat \<Rightarrow> real \<Rightarrow> real list \<Rightarrow> fval list" where
  "bb_upper_series period std closes =
     map (\<lambda>(m, sd). fadd m (fmul sd (Fin std)))
       (zip (rolling_mean period closes) (rolling_std period closes))"

definition bb_lower_series :: "nat \<Rightarrow> real \<Rightarrow> real list \<Rightarrow> fval list" where
  "bb_lower_series period std closes =
     map (\<lambda>(m, sd). fsub m (fmul sd (Fin std)))
       (zip (rolling_mean period closes) (rolling_std period closes))"

definition calculate_bollinger_bands :: "nat \<Rightarrow> real \<Rightarrow> row list \<Rightarrow> row list" where
  "calculate_bollinger_bands period std df =
     (let df1 = set_col (\<lambda>v r. r\<lparr>bb_middle := v\<rparr>) (rolling_mean period (map close df)) df;
          df2 = set_col (\<lambda>v r. r\<lparr>bb_upper := v\<rparr>) (bb_upper_series period std (map close df)) df1
      in set_col (\<lambda>v r. r\<lparr>bb_lower := v\<rparr>) (bb_lower_series period std (map close df)) df2)"

definition calculate_ema :: "nat \<Rightarrow> nat \<Rightarrow> row list \<Rightarrow> row list" where
  "calculate_ema fast slow df =
     (let df1 = set_col (\<lambda>v r. r\<lparr>ema_fast := Fin v\<rparr>) (ewm_mean fast (map close df)) df
      in set_col (\<lambda>v r. r\<lparr>ema_slow := Fin v\<rparr>) (ewm_mean slow (map close df)) df1)"

text \<open>
  The volume signal starts at 0 in every row; the rows with high volume and a rising close
  are then set to 1, and after that the rows with high volume and a falling close to -1.
\<close>

definition high_volume :: "row \<Rightarrow> bool" where
  "high_volume r = fgt (Fin (volume r)) (fmul (volume_ma r) (Fin (3 / 2)))"

definition calculate_volume_signal :: "nat \<Rightarrow> row list \<Rightarrow> row list" where
  "calculate_volume_signal period df =
     (let df1 = set_col (\<lambda>v r. r\<lparr>volume_ma := v\<rparr>) (rolling_mean period (map volume df)) df;
          df2 = map (\<lambda>r. r\<lparr>volume_signal := 0\<rparr>) df1;
          prev_close = shift1 (map close df);
          df3 = map (\<lambda>(r, pc). if high_volume r \<and> fgt (Fin (close r)) pc
                                  then r\<lparr>volume_signal := 1\<rparr> else r) (zip df2 prev_close)
      in map (\<lambda>(r, pc). if high_volume r \<and> flt (Fin (close r)) pc
                           then r\<lparr>volume_signal := - 1\<rparr> else r) (zip df3 prev_close))"

section \<open>The signal scorer\<close>

text \<open>
  The six rules of \<open>generate_signal\<close>, in the order of the source. Each one receives the
  pair \<open>(buy_score, sell_score)\<close> and returns it updated; the \<open>elif\<close> of the source is the
  inner \<open>else if\<close>.
\<close>

definition rsi_rule :: "row \<Rightarrow> real \<times> real \<Rightarrow> real \<times> real" where
  "rsi_rule latest = (\<lambda>(buy_score, sell_score).
     if flt (rsi latest) (Fin 30) then (buy_score + 2, sell_score)
     else if fgt (rsi latest) (Fin 70) then (buy_score, sell_score + 2)
     else (buy_score, sell_score))"

definition macd_rule :: "row \<Rightarrow> row \<Rightarrow> real \<times> real \<Rightarrow> real \<times> real" where
  "macd_rule latest prev = (\<lambda>(buy_score, sell_score).
     if fgt (macd latest) (macd_signal latest) \<and> fle (macd prev) (macd_signal prev)
     then (buy_score + 2, sell_score)
     else if flt (macd latest) (macd_signal latest) \<and> fge (macd prev) (macd_signal prev)
     then (buy_score, sell_score + 2)
     else (buy_score, sell_score))"

definition bollinger_rule :: "row \<Rightarrow> real \<times> real \<Rightarrow> real \<times> real" where
  "bollinger_rule latest = (\<lambda>(buy_score, sell_score).
     if flt (Fin (close latest)) (bb_lower latest) then (buy_score + 3 / 2, sell_score)
     else if fgt (Fin (close latest)) (bb_upper latest) then (buy_score, sell_score + 3 / 2)
     else (buy_score, sell_score))"

definition ema_rule :: "row \<Rightarrow> row \<Rightarrow> real \<times> real \<Rightarrow> real \<times> real" where
  "ema_rule latest prev = (\<lambda>(buy_score, sell_score).
     if fgt (ema_fast latest) (ema_slow latest) \<and> fle (ema_fast prev) (ema_slow prev)
     then (buy_score + 2, sell_score)
     else if flt (ema_fast latest) (ema_slow latest) \<and> fge (ema_fast prev) (ema_slow prev)
     then (buy_score, sell_score + 2)
     else (buy_score, sell_score))"

definition volume_rule :: "row \<Rightarrow> real \<times> real \<Rightarrow> real \<times> real" where
  "volume_rule latest = (\<lambda>(buy_score, sell_score).
     if volume_signal latest = 1 then (buy_score + 3 / 2, sell_score)
     else if volume_signal latest = - 1 then (buy_score, sell_score + 3 / 2)
     else (buy_score, sell_score))"

definition trend_rule :: "row \<Rightarrow> real \<times> real \<Rightarrow> real \<times> real" where
  "trend_rule latest = (\<lambda>(buy_score, sell_score).
     if fgt (Fin (close latest)) (ema_slow latest) then (buy_score + 1, sell_score)
     else if flt (Fin (close latest)) (ema_slow latest) then (buy_score, sell_score + 1)
     else (buy_score, sell_score))"

definition scores :: "row \<Rightarrow> row \<Rightarrow> real \<times> real" where
  "scores latest prev =
     trend_rule latest (volume_rule latest (ema_rule latest prev (bollinger_rule latest
       (macd_rule latest prev (rsi_rule latest (0, 0))))))"

text \<open>The decision logic, threshold 5 points.\<close>

definition decide :: "real \<times> real \<Rightarrow> signal" where
  "decide = (\<lambda>(buy_score, sell_score).
     if buy_score \<ge> 5 \<and> buy_score > sell_score then BUY
     else if sell_score \<ge> 5 \<and> sell_score > buy_score then SELL
     else HOLD)"

definition score_rows :: "row \<Rightarrow> row \<Rightarrow> signal" where
  "score_rows latest prev = decide (scores latest prev)"

text \<open>
  The copy of the frame before any indicator is computed. The indicator columns do not exist
  yet; each is written by the pipeline before it is read, so the initial entry is never seen.
\<close>

definition copy_frame :: "bar list \<Rightarrow> row list" where
  "copy_frame bars = map (\<lambda>b. bar.extend b
     (row.fields NaN NaN NaN NaN NaN NaN NaN NaN NaN NaN 0)) bars"

definition indicators :: "bar list \<Rightarrow> row list" where
  "indicators bars =
     calculate_volume_signal 20 (calculate_ema 9 21 (calculate_bollinger_bands 20 2
       (calculate_macd 12 26 9 (calculate_rsi 14 (copy_frame bars)))))"

text \<open>
  \<open>generate_signal\<close>: \<open>df.iloc[-1]\<close> and \<open>df.iloc[-2]\<close> raise IndexError on a frame with
  fewer than two rows; the enclosing handler turns every exception into HOLD.
\<close>

definition generate_signal :: "bar list \<Rightarrow> signal" where
  "generate_signal bars =
     (let df = indicators bars
      in if length df < 2 then HOLD
         else score_rows (df ! (length df - 1)) (df ! (length df - 2)))"

section \<open>The backtest simulator\<close>

subsection \<open>The arithmetic of doubles\<close>

text \<open>
  Every arithmetic operation of the simulator yields the double nearest to the exact
  result: round to nearest, ties to even, on a significand of 53 bits. Overflow to an
  infinity and the subnormal range are not modelled: the exponent is unbounded.
\<close>

definition round_even :: "real \<Rightarrow> int" where
  "round_even y =
     (let f = \<lfloor>y\<rfloor>
      in if y - of_int f < 1 / 2 then f
         else if 1 / 2 < y - of_int f then f + 1
         else if even f then f else f + 1)"

definition double :: "real \<Rightarrow> real" where
  "double x =
     (if x = 0 then 0
      else (let u = 2 powr of_int (\<lfloor>log 2 \<bar>x\<bar>\<rfloor> - 52)
            in of_int (round_even (x / u)) * u))"

text \<open>
  The functions of the simulator take the rounding as their first argument \<open>rnd\<close>. The
  program is the simulator with \<open>rnd = double\<close>; with the identity for \<open>rnd\<close> its arithmetic
  is exact. A finite result is rounded, NaN and the infinities stay.
\<close>

fun fround :: "(real \<Rightarrow> real) \<Rightarrow> fval \<Rightarrow> fval" where
  "fround rnd (Fin x) = Fin (rnd x)"
| "fround rnd v = v"

subsection \<open>The ledger\<close>

record config =
  POSITION_SIZE_PCT :: real
  STOP_LOSS_PCT :: real
  TAKE_PROFIT_PCT :: real

text \<open>The open position: the dictionary \<open>position\<close> of the simulator.\<close>

record position =
  entry_price :: real
  shares :: int
  entry_date :: int

text \<open>
  A trade record repeats the three entries of the position it closes and adds the exit.
\<close>

record trade = position +
  exit_date :: int
  exit_price :: real
  pnl :: real
  pnl_pct :: fval
  reason :: string

record snapshot =
  date :: int
  equity :: real

text \<open>
  The tracking variables of \<open>run_backtest\<close>; \<open>holding\<close> is the variable \<open>position\<close>,
  which is \<open>None\<close> while no position is open.
\<close>

record sim =
  capital :: real
  holding :: "position option"
  trades :: "trade list"
  equity_curve :: "snapshot list"

datatype error = OverflowError | ValueError | KeyError | ZeroDivisionError

text \<open>
  \<open>int(x)\<close> on a double: truncation toward zero; \<open>int(inf)\<close> raises OverflowError and
  \<open>int(nan)\<close> raises ValueError. The result is an integer that is a double itself, so a
  share count enters the products below without rounding.
\<close>

fun py_int :: "fval \<Rightarrow> error + int" where
  "py_int NaN = Inl ValueError"
| "py_int PInf = Inl OverflowError"
| "py_int NInf = Inl OverflowError"
| "py_int (Fin x) = Inr (if 0 \<le> x then \<lfloor>x\<rfloor> else \<lceil>x\<rceil>)"

text \<open>
  \<open>pnl_pct = (current_price - entry_price) / entry_price * 100\<close>: three operations, each
  rounded. The division is numpy's and raises nothing.
\<close>

definition pnl_pct_of :: "(real \<Rightarrow> real) \<Rightarrow> real \<Rightarrow> real \<Rightarrow> fval" where
  "pnl_pct_of rnd price entry =
     fround rnd (fmul (fround rnd (fdiv (Fin (rnd (price - entry))) (Fin entry))) (Fin 100))"

text \<open>The trade appended at an exit; \<open>pnl = (price - entry_price) * shares\<close>.\<close>

definition close_position ::
    "(real \<Rightarrow> real) \<Rightarrow> position \<Rightarrow> int \<Rightarrow> real \<Rightarrow> fval \<Rightarrow> string \<Rightarrow> trade" where
  "close_position rnd p d price pct why =
     position.extend p
       (trade.fields d price (rnd (rnd (price - entry_price p) * real_of_int (shares p)))
          pct why)"

text \<open>
  The exit conditions of an open position: \<open>should_exit\<close> and \<open>exit_reason\<close>, decided by
  the \<open>if\<close>/\<open>elif\<close> chain of the source.
\<close>

definition exit_decision :: "config \<Rightarrow> signal \<Rightarrow> fval \<Rightarrow> bool \<times> string" where
  "exit_decision cfg sg pct =
     (if sg = SELL then (True, ''SELL signal'')
      else if fle pct (Fin (- STOP_LOSS_PCT cfg)) then (True, ''Stop-loss'')
      else if fge pct (Fin (TAKE_PROFIT_PCT cfg)) then (True, ''Take-profit'')
      else (False, []))"

text \<open>
  The \<open>Execute trades\<close> part of the loop body, for one bar. The share count is
  \<open>int((capital * POSITION_SIZE_PCT) / current_price)\<close>.
\<close>

definition execute_trades ::
    "(real \<Rightarrow> real) \<Rightarrow> config \<Rightarrow> signal \<Rightarrow> real \<Rightarrow> int \<Rightarrow> sim \<Rightarrow> error + sim" where
  "execute_trades rnd cfg sg current_price current_date s =
     (if sg = BUY \<and> holding s = None then
        (case py_int (fround rnd (fdiv (Fin (rnd (capital s * POSITION_SIZE_PCT cfg)))
                        (Fin current_price))) of
           Inl e \<Rightarrow> Inl e
         | Inr n \<Rightarrow>
             if n > 0 then
               Inr (s\<lparr>holding := Some \<lparr>entry_price = current_price, shares = n,
                                        entry_date = current_date\<rparr>,
                      capital := rnd (capital s - rnd (real_of_int n * current_price))\<rparr>)
             else Inr s)
      else
        (case holding s of
           None \<Rightarrow> Inr s
         | Some p \<Rightarrow>
             (let pct = pnl_pct_of rnd current_price (entry_price p);
                  (should_exit, exit_reason) = exit_decision cfg sg pct
              in if should_exit then
                   Inr (s\<lparr>capital :=
                            rnd (capital s + rnd (real_of_int (shares p) * current_price)),
                          trades := trades s @
                            [close_position rnd p current_date current_price pct exit_reason],
                          holding := None\<rparr>)
                 else Inr s)))"

text \<open>The \<open>Track equity\<close> part of the loop body.\<close>

definition track_equity :: "(real \<Rightarrow> real) \<Rightarrow> real \<Rightarrow> int \<Rightarrow> sim \<Rightarrow> sim" where
  "track_equity rnd current_price current_date s =
     (let current_equity =
            (case holding s of
               None \<Rightarrow> capital s
             | Some p \<Rightarrow> rnd (capital s + rnd (real_of_int (shares p) * current_price)))
      in s\<lparr>equity_curve :=
             equity_curve s @ [\<lparr>date = current_date, equity = current_equity\<rparr>]\<rparr>)"

definition trade_step ::
    "(real \<Rightarrow> real) \<Rightarrow> config \<Rightarrow> signal \<Rightarrow> real \<Rightarrow> int \<Rightarrow> sim \<Rightarrow> error + sim" where
  "trade_step rnd cfg sg current_price current_date s =
     (case execute_trades rnd cfg sg current_price current_date s of
        Inl e \<Rightarrow> Inl e
      | Inr s' \<Rightarrow> Inr (track_equity rnd current_price current_date s'))"

text \<open>\<open>DataFrame.tail(n)\<close>: the last \<open>n\<close> rows, all of them when there are fewer.\<close>

definition tail :: "nat \<Rightarrow> 'a list \<Rightarrow> 'a list" where
  "tail n xs = drop (length xs - n) xs"

text \<open>
  The loop body at index \<open>i\<close>: the strategy sees the last 100 rows of \<open>bars.iloc[:i+1]\<close>.
  The loop only runs over indices below \<open>len(bars)\<close>.
\<close>

definition bar_step ::
    "(real \<Rightarrow> real) \<Rightarrow> config \<Rightarrow> bar list \<Rightarrow> nat \<Rightarrow> sim \<Rightarrow> error + sim" where
  "bar_step rnd cfg bars i s =
     (let current_bars = take (Suc i) bars
      in trade_step rnd cfg (generate_signal (tail 100 current_bars))
           (close (last current_bars)) (timestamp (last current_bars)) s)"

text \<open>The loop \<open>for i in range(100, len(bars))\<close>; an exception ends the run.\<close>

fun simulate ::
    "(real \<Rightarrow> real) \<Rightarrow> config \<Rightarrow> bar list \<Rightarrow> nat list \<Rightarrow> sim \<Rightarrow> error + sim" where
  "simulate rnd cfg bars [] s = Inr s"
| "simulate rnd cfg bars (i # is) s =
     (case bar_step rnd cfg bars i s of
        Inl e \<Rightarrow> Inl e
      | Inr s' \<Rightarrow> simulate rnd cfg bars is s')"

text \<open>
  \<open>Close any open position\<close> after the loop, at the last close. The variable \<open>position\<close>
  is not cleared there: nothing reads it afterwards.
\<close>

definition close_open_position :: "(real \<Rightarrow> real) \<Rightarrow> bar list \<Rightarrow> sim \<Rightarrow> sim" where
  "close_open_position rnd bars s =
     (case holding s of
        None \<Rightarrow> s
      | Some p \<Rightarrow>
          (let final_price = close (last bars)
           in s\<lparr>capital := rnd (capital s + rnd (real_of_int (shares p) * final_price)),
                trades := trades s @ [close_position rnd p (timestamp (last bars)) final_price
                            (pnl_pct_of rnd final_price (entry_price p)) ''End of backtest'']\<rparr>))"

definition init_sim :: "real \<Rightarrow> sim" where
  "init_sim initial_capital =
     \<lparr>capital = initial_capital, holding = None, trades = [], equity_curve = []\<rparr>"

text \<open>
  The tracking variables of a whole run as they stand when the statistics are computed.
  There are none when the data is insufficient (the early \<open>return None\<close>).
\<close>

definition run_ledger ::
    "(real \<Rightarrow> real) \<Rightarrow> config \<Rightarrow> bar list option \<Rightarrow> real \<Rightarrow> error + sim option" where
  "run_ledger rnd cfg bars initial_capital =
     (case bars of
        None \<Rightarrow> Inr None
      | Some bs \<Rightarrow>
          if length bs < 100 then Inr None
          else (case simulate rnd cfg bs [100..<length bs] (init_sim initial_capital) of
                  Inl e \<Rightarrow> Inl e
                | Inr s \<Rightarrow> Inr (Some (close_open_position rnd bs s))))"

section \<open>The statistics calculator\<close>

text \<open>The equity frame: the snapshots with the columns \<open>peak\<close> and \<open>drawdown\<close> added.\<close>

record equity_row = snapshot +
  peak :: real
  drawdown :: fval

record report =
  initial_capital :: real
  final_capital :: real
  total_return :: fval
  total_trades :: nat
  winning_trades :: nat
  losing_trades :: nat
  win_rate :: real
  avg_win :: real
  avg_loss :: real
  profit_factor :: real
  max_drawdown :: fval
  trades_df :: "trade list"
  equity_df :: "equity_row list"

text \<open>\<open>Series.cummax()\<close>: the running maximum.\<close>

fun cummax_from :: "real \<Rightarrow> real list \<Rightarrow> real list" where
  "cummax_from m [] = []"
| "cummax_from m (x # xs) = max m x # cummax_from (max m x) xs"

fun cummax :: "real list \<Rightarrow> real list" where
  "cummax [] = []"
| "cummax (x # xs) = x # cummax_from x xs"

text \<open>\<open>Series.min()\<close> skips NaN entries; it is NaN when nothing is left.\<close>

definition min_skipna :: "fval list \<Rightarrow> fval" where
  "min_skipna xs =
     fold (\<lambda>x acc. if x = NaN then acc else if acc = NaN then x
                     else if flt x acc then x else acc) xs NaN"

text \<open>\<open>(equity - peak) / peak * 100\<close> on the columns of the equity frame.\<close>

definition drawdown_of :: "(real \<Rightarrow> real) \<Rightarrow> real \<Rightarrow> real \<Rightarrow> fval" where
  "drawdown_of rnd e pk =
     fround rnd (fmul (fround rnd (fdiv (Fin (rnd (e - pk))) (Fin pk))) (Fin 100))"

text \<open>
  The final capital is a plain Python number as long as the simulator has bought nothing,
  and a numpy double afterwards. The difference shows in a division by zero: Python
  raises ZeroDivisionError, numpy yields an infinity or NaN.
\<close>

datatype number = PyNumber real | NumpyDouble real

fun number_value :: "number \<Rightarrow> real" where
  "number_value (PyNumber x) = x"
| "number_value (NumpyDouble x) = x"

text \<open>
  \<open>total_return = (final_capital - initial_capital) / initial_capital * 100\<close>; the initial
  capital is the argument of \<open>run_backtest\<close>, a Python number.
\<close>

definition total_return_of :: "(real \<Rightarrow> real) \<Rightarrow> real \<Rightarrow> number \<Rightarrow> error + fval" where
  "total_return_of rnd initial final =
     (case final of
        NumpyDouble f \<Rightarrow>
          Inr (fround rnd (fmul (fround rnd (fdiv (Fin (rnd (f - initial))) (Fin initial)))
                 (Fin 100)))
      | PyNumber f \<Rightarrow>
          if initial = 0 then Inl ZeroDivisionError
          else Inr (Fin (rnd (rnd (rnd (f - initial) / initial) * 100))))"

text \<open>
  \<open>calculate_statistics\<close>. An empty trade list ends it at once with \<open>None\<close>. With trades
  but no equity snapshot the equity frame has no column \<open>equity\<close> and the lookup raises
  KeyError. The means over the profit column are the library's; their sums are taken
  exact here.
\<close>

definition calculate_statistics ::
    "(real \<Rightarrow> real) \<Rightarrow> trade list \<Rightarrow> snapshot list \<Rightarrow> real \<Rightarrow> number
       \<Rightarrow> error + report option" where
  "calculate_statistics rnd trades_list equity_list initial final =
     (if trades_list = [] then Inr None
      else
        (case total_return_of rnd initial final of
           Inl e \<Rightarrow> Inl e
         | Inr total_ret \<Rightarrow>
            (let total = length trades_list;
                 wins = filter (\<lambda>t. pnl t > 0) trades_list;
                 losses = filter (\<lambda>t. pnl t < 0) trades_list;
                 winning = length wins;
                 losing = length losses;
                 rate = (if total > 0 then rnd (rnd (real winning / real total) * 100) else 0);
                 a_win = (if winning > 0 then rnd (mean (map pnl wins)) else 0);
                 a_loss = (if losing > 0 then rnd (mean (map pnl losses)) else 0);
                 pf = (if a_loss \<noteq> 0 then \<bar>rnd (a_win / a_loss)\<bar> else 0)
             in if equity_list = [] then Inl KeyError
                else
                  (let peaks = cummax (map equity equity_list);
                       eq_df = map (\<lambda>(sn, pk). snapshot.extend sn
                                 (equity_row.fields pk (drawdown_of rnd (equity sn) pk)))
                                 (zip equity_list peaks)
                   in Inr (Some \<lparr>initial_capital = initial,
                         final_capital = number_value final,
                         total_return = total_ret, total_trades = total,
                         winning_trades = winning, losing_trades = losing, win_rate = rate,
                         avg_win = a_win, avg_loss = a_loss, profit_factor = pf,
                         max_drawdown = min_skipna (map drawdown eq_df),
                         trades_df = trades_list, equity_df = eq_df\<rparr>)))))"

text \<open>
  \<open>run_backtest\<close>: the historical data is the result of the data source (\<open>None\<close> when it is
  unavailable); the value returned is the result of the statistics calculator. The capital
  is a numpy double exactly when a trade is recorded: every purchase makes it one, and
  every position bought is closed, at the latest by the closure after the loop.
\<close>

definition run_backtest ::
    "(real \<Rightarrow> real) \<Rightarrow> config \<Rightarrow> bar list option \<Rightarrow> real \<Rightarrow> error + report option" where
  "run_backtest rnd cfg bars initial =
     (case run_ledger rnd cfg bars initial of
        Inl e \<Rightarrow> Inl e
      | Inr None \<Rightarrow> Inr None
      | Inr (Some s) \<Rightarrow>
          calculate_statistics rnd (trades s) (equity_curve s) initial
            (if trades s = [] then PyNumber (capital s) else NumpyDouble (capital s)))"

section \<open>The broker interface: placing an order\<close>

datatype OrderSide = OrderSide_BUY | OrderSide_SELL

text \<open>The two request objects; the time in force is always DAY.\<close>

datatype order_request =
    MarketOrderRequest string real OrderSide
  | LimitOrderRequest string real OrderSide real

text \<open>\<open>str.lower()\<close> on ASCII text.\<close>

definition lower_char :: "char \<Rightarrow> char" where
  "lower_char c =
     (case map_of (zip ''ABCDEFGHIJKLMNOPQRSTUVWXYZ'' ''abcdefghijklmnopqrstuvwxyz'') c of
        None \<Rightarrow> c
      | Some d \<Rightarrow> d)"

definition lower :: "string \<Rightarrow> string" where
  "lower s = map lower_char s"

text \<open>The truth value of the argument \<open>limit_price\<close>: \<open>None\<close> and zero are false.\<close>

fun truthy :: "real option \<Rightarrow> bool" where
  "truthy None = False"
| "truthy (Some p) = (p \<noteq> 0)"

text \<open>
  \<open>place_order\<close>. The trading client is the order sink: \<open>submit\<close> is its answer to a
  request (\<open>None\<close> when it raises, which the handler turns into \<open>None\<close>), and the second
  component of the result lists the requests that reached it.
\<close>

definition place_order ::
    "(order_request \<Rightarrow> 'o option) \<Rightarrow> string \<Rightarrow> real \<Rightarrow> string \<Rightarrow> string \<Rightarrow> real option
       \<Rightarrow> 'o option \<times> order_request list" where
  "place_order submit symbol qty side order_type limit_price =
     (let order_side = (if lower side = ''buy'' then OrderSide_BUY else OrderSide_SELL)
      in if order_type = ''market'' then
           (let order_data = MarketOrderRequest symbol qty order_side
            in (submit order_data, [order_data]))
         else if order_type = ''limit'' \<and> truthy limit_price then
           (let order_data = LimitOrderRequest symbol qty order_side (the limit_price)
            in (submit order_data, [order_data]))
         else (None, []))"

section \<open>The scoring table as the specification words it\<close>

text \<open>
  The specification's table gives each condition a buy weight and a sell weight; a score is
  the sum of the weights of the conditions that hold. The conditions are those of the six
  rules, each side stated on its own.
\<close>

definition macd_cross_up :: "row \<Rightarrow> row \<Rightarrow> bool" where
  "macd_cross_up latest prev =
     (fgt (macd latest) (macd_signal latest) \<and> fle (macd prev) (macd_signal prev))"

definition macd_cross_down :: "row \<Rightarrow> row \<Rightarrow> bool" where
  "macd_cross_down latest prev =
     (flt (macd latest) (macd_signal latest) \<and> fge (macd prev) (macd_signal prev))"

definition golden_cross :: "row \<Rightarrow> row \<Rightarrow> bool" where
  "golden_cross latest prev =
     (fgt (ema_fast latest) (ema_slow latest) \<and> fle (ema_fast prev) (ema_slow prev))"

definition death_cross :: "row \<Rightarrow> row \<Rightarrow> bool" where
  "death_cross latest prev =
     (flt (ema_fast latest) (ema_slow latest) \<and> fge (ema_fast prev) (ema_slow prev))"

definition weight :: "real \<Rightarrow> bool \<Rightarrow> real" where
  "weight w c = (if c then w else 0)"

definition table_buy_score :: "row \<Rightarrow> row \<Rightarrow> real" where
  "table_buy_score latest prev =
     weight 2 (flt (rsi latest) (Fin 30))
     + weight 2 (macd_cross_up latest prev)
     + weight (3 / 2) (flt (Fin (close latest)) (bb_lower latest))
     + weight 2 (golden_cross latest prev)
     + weight (3 / 2) (volume_signal latest = 1)
     + weight 1 (fgt (Fin (close latest)) (ema_slow latest))"

definition table_sell_score :: "row \<Rightarrow> row \<Rightarrow> real" where
  "table_sell_score latest prev =
     weight 2 (fgt (rsi latest) (Fin 70))
     + weight 2 (macd_cross_down latest prev)
     + weight (3 / 2) (fgt (Fin (close latest)) (bb_upper latest))
     + weight 2 (death_cross latest prev)
     + weight (3 / 2) (volume_signal latest = - 1)
     + weight 1 (flt (Fin (close latest)) (ema_slow latest))"

section \<open>Notions used to state the properties\<close>

subsection \<open>The pipeline, row by row\<close>

text \<open>
  The volume signal of one row, from its volume, its volume average, its close and the close
  of the row before (NaN in the first row): what the two masked assignments of
  \<open>calculate_volume_signal\<close> leave in the row.
\<close>

definition vol_sig :: "real \<Rightarrow> fval \<Rightarrow> real \<Rightarrow> fval \<Rightarrow> int" where
  "vol_sig v vma c pc =
     (let hv = fgt (Fin v) (fmul vma (Fin (3 / 2)))
      in if hv \<and> flt (Fin c) pc then - 1 else if hv \<and> fgt (Fin c) pc then 1 else 0)"

text \<open>
  The two rows that \<open>generate_signal\<close> scores: \<open>df.iloc[-1]\<close> and \<open>df.iloc[-2]\<close> of the frame
  with all indicators computed.
\<close>

definition latest_row :: "bar list \<Rightarrow> row" where
  "latest_row bars = indicators bars ! (length bars - 1)"

definition prev_row :: "bar list \<Rightarrow> row" where
  "prev_row bars = indicators bars ! (length bars - 2)"

text \<open>
  The close deltas that enter the RSI window ending at bar \<open>i\<close>, and what the
  specification says of them: no negative delta, no positive delta.
\<close>

definition rsi_window :: "real list \<Rightarrow> nat \<Rightarrow> fval list" where
  "rsi_window closes i = window 14 (diff closes) i"

definition no_negative_delta :: "real list \<Rightarrow> nat \<Rightarrow> bool" where
  "no_negative_delta closes i = (\<forall>d \<in> set (rsi_window closes i). \<not> flt d (Fin 0))"

definition no_positive_delta :: "real list \<Rightarrow> nat \<Rightarrow> bool" where
  "no_positive_delta closes i = (\<forall>d \<in> set (rsi_window closes i). \<not> fgt d (Fin 0))"

text \<open>The average gain and the average loss over the window.\<close>

definition avg_gain :: "real list \<Rightarrow> nat \<Rightarrow> real" where
  "avg_gain closes i = mean (map where_pos (rsi_window closes i))"

definition avg_down :: "real list \<Rightarrow> nat \<Rightarrow> real" where
  "avg_down closes i = mean (map (\<lambda>d. - where_neg d) (rsi_window closes i))"

subsection \<open>Standard deviations\<close>

text \<open>
  The population standard deviation (divisor \<open>n\<close>) that the specification names, and the
  sample standard deviation (divisor \<open>n - 1\<close>).
\<close>

definition sum_sq_dev :: "real list \<Rightarrow> real" where
  "sum_sq_dev xs = sum_list (map (\<lambda>x. (x - mean xs)\<^sup>2) xs)"

definition population_std :: "real list \<Rightarrow> real" where
  "population_std xs = sqrt (sum_sq_dev xs / real (length xs))"

definition sample_std :: "real list \<Rightarrow> real" where
  "sample_std xs = sqrt (sum_sq_dev xs / (real (length xs) - 1))"

subsection \<open>Missing indicator values\<close>

text \<open>
  The scores of the rules that read no missing value: a rule is applied when every value
  it reads is defined, and skipped otherwise. The RSI rule reads the RSI; the MACD rule
  reads MACD and signal line of both rows; the Bollinger rule reads the two bands; the EMA
  rule reads both averages of both rows; the volume rule reads the volume average, through
  the volume signal; the trend rule reads the slow average.
\<close>

definition defined :: "fval \<Rightarrow> bool" where
  "defined v = (v \<noteq> NaN)"

definition remaining_scores :: "row \<Rightarrow> row \<Rightarrow> real \<times> real" where
  "remaining_scores latest prev =
     (let s1 = (if defined (rsi latest) then rsi_rule latest (0, 0) else (0, 0));
          s2 = (if defined (macd latest) \<and> defined (macd_signal latest)
                   \<and> defined (macd prev) \<and> defined (macd_signal prev)
                then macd_rule latest prev s1 else s1);
          s3 = (if defined (bb_lower latest) \<and> defined (bb_upper latest)
                then bollinger_rule latest s2 else s2);
          s4 = (if defined (ema_fast latest) \<and> defined (ema_slow latest)
                   \<and> defined (ema_fast prev) \<and> defined (ema_slow prev)
                then ema_rule latest prev s3 else s3);
          s5 = (if defined (volume_ma latest) then volume_rule latest s4 else s4)
      in if defined (ema_slow latest) then trend_rule latest s5 else s5)"

subsection \<open>Exits\<close>

text \<open>
  The step from \<open>s\<close> to \<open>s'\<close> closed the position \<open>p\<close> at the given date and price for the
  given reason: no position is left, and exactly one trade was appended, whose recorded
  exit reason, exit date, exit price and percentage are the given ones and whose entry is
  that of the position.
\<close>

definition exited_with ::
    "sim \<Rightarrow> sim \<Rightarrow> position \<Rightarrow> int \<Rightarrow> real \<Rightarrow> fval \<Rightarrow> string \<Rightarrow> bool" where
  "exited_with s s' p d price pct why =
     (holding s' = None
      \<and> length (trades s') = Suc (length (trades s))
      \<and> butlast (trades s') = trades s
      \<and> reason (last (trades s')) = why
      \<and> exit_date (last (trades s')) = d
      \<and> exit_price (last (trades s')) = price
      \<and> pnl_pct (last (trades s')) = pct
      \<and> entry_price (last (trades s')) = entry_price p
      \<and> shares (last (trades s')) = shares p
      \<and> entry_date (last (trades s')) = entry_date p)"

subsection \<open>Example data\<close>

definition mk_bar :: "int \<Rightarrow> real \<Rightarrow> real \<Rightarrow> bar" where
  "mk_bar t c v = \<lparr>timestamp = t, open_price = c, high = c, low = c, close = c, volume = v\<rparr>"

text \<open>\<open>n\<close> bars of one close and one volume, at times \<open>t0, t0 + 1, ...\<close>.\<close>

definition flat_bars :: "nat \<Rightarrow> nat \<Rightarrow> real \<Rightarrow> real \<Rightarrow> bar list" where
  "flat_bars t0 n c v = map (\<lambda>t. mk_bar (int t) c v) [t0..<t0 + n]"

text \<open>A flat series that dips at its last bar but one and jumps at its last bar.\<close>

definition dip_and_jump :: "nat \<Rightarrow> bar list" where
  "dip_and_jump n = flat_bars 0 n 100 1 @ [mk_bar (int n) 99 1, mk_bar (int n + 1) 110 1]"

text \<open>
  The configuration's defaults: the position size is the double nearest to 0.1, stop-loss
  and take-profit are 2.0 and 4.0.
\<close>

definition default_config :: config where
  "default_config =
     \<lparr>POSITION_SIZE_PCT = 3602879701896397 / 36028797018963968,
      STOP_LOSS_PCT = 2, TAKE_PROFIT_PCT = 4\<rparr>"

text \<open>A configuration with stop-loss and take-profit at 29 per cent.\<close>

definition wide_config :: config where
  "wide_config =
     \<lparr>POSITION_SIZE_PCT = 3602879701896397 / 36028797018963968,
      STOP_LOSS_PCT = 29, TAKE_PROFIT_PCT = 29\<rparr>"

text \<open>A ledger with ten shares bought at 100, and a ledger with no position.\<close>

definition bought_at_100 :: position where
  "bought_at_100 = \<lparr>entry_price = 100, shares = 10, entry_date = 100\<rparr>"

definition long_ledger :: sim where
  "long_ledger = \<lparr>capital = 9000, holding = Some bought_at_100, trades = [], equity_curve = []\<rparr>"

definition flat_ledger :: sim where
  "flat_ledger = init_sim 10000"





text \<open>Twenty bars: ten closes of 1, then ten closes of 3.\<close>

definition two_level :: "bar list" where
  "two_level = flat_bars 0 10 1 1 @ flat_bars 10 10 3 1"

text \<open>Fifteen bars: fourteen flat bars at 100 and a last bar at 110.\<close>

definition late_jump :: "bar list" where
  "late_jump = flat_bars 0 14 100 1 @ [mk_bar 14 110 1]"

subsection \<open>Cash conservation\<close>

text \<open>
  The cost of the open position, and the invariant of the loop in exact arithmetic: cash
  plus the cost of the open position is the initial capital plus the profit of the recorded
  trades, and every recorded trade carries the profit of its own prices and shares.
\<close>

definition position_cost :: "sim \<Rightarrow> real" where
  "position_cost s =
     (case holding s of None \<Rightarrow> 0 | Some p \<Rightarrow> real_of_int (shares p) * entry_price p)"

definition trade_pnl_ok :: "trade \<Rightarrow> bool" where
  "trade_pnl_ok t = (pnl t = (exit_price t - entry_price t) * real_of_int (shares t))"

definition conserved :: "real \<Rightarrow> sim \<Rightarrow> bool" where
  "conserved initial s =
     (capital s + position_cost s = initial + sum_list (map pnl (trades s))
      \<and> list_all trade_pnl_ok (trades s))"

subsection \<open>Insufficient data\<close>


section \<open>Properties of the signal scorer\<close>

subsection \<open>Comparisons of doubles\<close>

lemma flt_asym: "flt a b \<Longrightarrow> \<not> flt b a"
  by (cases a; cases b) auto

lemma flt_trans: "flt a b \<Longrightarrow> flt b c \<Longrightarrow> flt a c"
  by (cases a; cases b; cases c) auto

lemma flt_NaN_right: "\<not> flt a NaN"
  by (cases a) auto

lemma fle_NaN_right: "\<not> fle a NaN"
  by (cases a) auto

subsection \<open>The code's scores are the table's scores\<close>

lemma rsi_rule_table:
  "rsi_rule latest (b, s) =
     (b + weight 2 (flt (rsi latest) (Fin 30)), s + weight 2 (fgt (rsi latest) (Fin 70)))"
  by (cases "rsi latest") (simp_all add: rsi_rule_def weight_def fgt_def)

lemma macd_rule_table:
  "macd_rule latest prev (b, s) =
     (b + weight 2 (macd_cross_up latest prev), s + weight 2 (macd_cross_down latest prev))"
  using flt_asym [of "macd latest" "macd_signal latest"]
  by (auto simp: macd_rule_def weight_def macd_cross_up_def macd_cross_down_def fgt_def)

lemma bollinger_rule_table:
  assumes "\<not> flt (bb_upper latest) (bb_lower latest)"
  shows "bollinger_rule latest (b, s) =
     (b + weight (3 / 2) (flt (Fin (close latest)) (bb_lower latest)),
      s + weight (3 / 2) (fgt (Fin (close latest)) (bb_upper latest)))"
  using assms flt_trans [of "bb_upper latest" "Fin (close latest)" "bb_lower latest"]
  by (auto simp: bollinger_rule_def weight_def fgt_def)

lemma ema_rule_table:
  "ema_rule latest prev (b, s) =
     (b + weight 2 (golden_cross latest prev), s + weight 2 (death_cross latest prev))"
  using flt_asym [of "ema_fast latest" "ema_slow latest"]
  by (auto simp: ema_rule_def weight_def golden_cross_def death_cross_def fgt_def)

lemma volume_rule_table:
  "volume_rule latest (b, s) =
     (b + weight (3 / 2) (volume_signal latest = 1),
      s + weight (3 / 2) (volume_signal latest = - 1))"
  by (auto simp: volume_rule_def weight_def)

lemma trend_rule_table:
  "trend_rule latest (b, s) =
     (b + weight 1 (fgt (Fin (close latest)) (ema_slow latest)),
      s + weight 1 (flt (Fin (close latest)) (ema_slow latest)))"
  using flt_asym [of "Fin (close latest)" "ema_slow latest"]
  by (auto simp: trend_rule_def weight_def fgt_def)

lemma scores_table:
  assumes "\<not> flt (bb_upper latest) (bb_lower latest)"
  shows "scores latest prev = (table_buy_score latest prev, table_sell_score latest prev)"
  by (simp add: scores_def rsi_rule_table macd_rule_table bollinger_rule_table [OF assms]
      ema_rule_table volume_rule_table trend_rule_table table_buy_score_def
      table_sell_score_def)

section \<open>Properties of the indicator pipeline\<close>

subsection \<open>Every column has the length of the frame\<close>

lemma length_diff [simp]: "length (diff xs) = length xs"
  by (cases xs) simp_all

lemma length_shift1 [simp]: "length (shift1 xs) = length xs"
  by (cases xs) simp_all

lemma length_rolling_mean [simp]: "length (rolling_mean w xs) = length xs"
  by (simp add: rolling_mean_def)

lemma length_rolling_std [simp]: "length (rolling_std w xs) = length xs"
  by (simp add: rolling_std_def)

lemma length_ewm_from [simp]: "length (ewm_from a y xs) = length xs"
  by (induction xs arbitrary: y) simp_all

lemma length_ewm_mean [simp]: "length (ewm_mean s xs) = length xs"
  by (cases xs) simp_all

lemma length_rsi_series [simp]: "length (rsi_series p xs) = length xs"
  by (simp add: rsi_series_def Let_def)

lemma length_macd_series [simp]: "length (macd_series f s xs) = length xs"
  by (simp add: macd_series_def Let_def)

lemma length_bb_upper_series [simp]: "length (bb_upper_series p k xs) = length xs"
  by (simp add: bb_upper_series_def)

lemma length_bb_lower_series [simp]: "length (bb_lower_series p k xs) = length xs"
  by (simp add: bb_lower_series_def)

lemma length_set_col [simp]: "length (set_col u c df) = min (length df) (length c)"
  by (simp add: set_col_def)

lemma nth_set_col [simp]:
  "i < length df \<Longrightarrow> i < length c \<Longrightarrow> set_col u c df ! i = u (c ! i) (df ! i)"
  by (simp add: set_col_def)

lemma length_calculate_rsi [simp]: "length (calculate_rsi p df) = length df"
  by (simp add: calculate_rsi_def)

lemma length_calculate_macd [simp]: "length (calculate_macd f s g df) = length df"
  by (simp add: calculate_macd_def Let_def)

lemma length_calculate_bollinger_bands [simp]: "length (calculate_bollinger_bands p k df) = length df"
  by (simp add: calculate_bollinger_bands_def Let_def)

lemma length_calculate_ema [simp]: "length (calculate_ema f s df) = length df"
  by (simp add: calculate_ema_def Let_def)

lemma length_calculate_volume_signal [simp]: "length (calculate_volume_signal p df) = length df"
  by (simp add: calculate_volume_signal_def Let_def)

lemma length_copy_frame [simp]: "length (copy_frame bars) = length bars"
  by (simp add: copy_frame_def)

lemma length_indicators [simp]: "length (indicators bars) = length bars"
  by (simp add: indicators_def)

text \<open>Columns that a method leaves alone.\<close>

lemma map_close_set_col:
  "(\<And>v r. close (u v r) = close r) \<Longrightarrow> length c = length df \<Longrightarrow> map close (set_col u c df) = map close df"
  by (rule nth_equalityI) simp_all

lemma map_volume_set_col:
  "(\<And>v r. volume (u v r) = volume r) \<Longrightarrow> length c = length df \<Longrightarrow> map volume (set_col u c df) = map volume df"
  by (rule nth_equalityI) simp_all

lemma close_calculate_rsi [simp]: "map close (calculate_rsi p df) = map close df"
  by (simp add: calculate_rsi_def map_close_set_col)

lemma close_calculate_macd [simp]: "map close (calculate_macd f s g df) = map close df"
  by (simp add: calculate_macd_def Let_def map_close_set_col)

lemma close_calculate_bollinger_bands [simp]: "map close (calculate_bollinger_bands p k df) = map close df"
  by (simp add: calculate_bollinger_bands_def Let_def map_close_set_col)

lemma close_calculate_ema [simp]: "map close (calculate_ema f s df) = map close df"
  by (simp add: calculate_ema_def Let_def map_close_set_col)

lemma close_copy_frame [simp]: "map close (copy_frame bars) = map close bars"
  by (simp add: copy_frame_def bar.extend_def o_def)

lemma volume_calculate_rsi [simp]: "map volume (calculate_rsi p df) = map volume df"
  by (simp add: calculate_rsi_def map_volume_set_col)

lemma volume_calculate_macd [simp]: "map volume (calculate_macd f s g df) = map volume df"
  by (simp add: calculate_macd_def Let_def map_volume_set_col)

lemma volume_calculate_bollinger_bands [simp]: "map volume (calculate_bollinger_bands p k df) = map volume df"
  by (simp add: calculate_bollinger_bands_def Let_def map_volume_set_col)

lemma volume_calculate_ema [simp]: "map volume (calculate_ema f s df) = map volume df"
  by (simp add: calculate_ema_def Let_def map_volume_set_col)

lemma volume_copy_frame [simp]: "map volume (copy_frame bars) = map volume bars"
  by (simp add: copy_frame_def bar.extend_def o_def)

subsection \<open>The row at an index\<close>

lemma nth_calculate_rsi:
  "i < length df \<Longrightarrow> calculate_rsi p df ! i = (df ! i)\<lparr>rsi := rsi_series p (map close df) ! i\<rparr>"
  by (simp add: calculate_rsi_def)

lemma nth_calculate_macd:
  "i < length df \<Longrightarrow> calculate_macd f s g df ! i =
     (df ! i)\<lparr>macd := Fin (macd_series f s (map close df) ! i),
              macd_signal := Fin (ewm_mean g (macd_series f s (map close df)) ! i),
              macd_hist := Fin (macd_series f s (map close df) ! i
                                 - ewm_mean g (macd_series f s (map close df)) ! i)\<rparr>"
  by (simp add: calculate_macd_def Let_def)

lemma nth_calculate_bollinger_bands:
  "i < length df \<Longrightarrow> calculate_bollinger_bands p k df ! i =
     (df ! i)\<lparr>bb_middle := rolling_mean p (map close df) ! i,
              bb_upper := bb_upper_series p k (map close df) ! i,
              bb_lower := bb_lower_series p k (map close df) ! i\<rparr>"
  by (simp add: calculate_bollinger_bands_def Let_def)

lemma nth_calculate_ema:
  "i < length df \<Longrightarrow> calculate_ema f s df ! i =
     (df ! i)\<lparr>ema_fast := Fin (ewm_mean f (map close df) ! i),
              ema_slow := Fin (ewm_mean s (map close df) ! i)\<rparr>"
  by (simp add: calculate_ema_def Let_def)

lemma nth_calculate_volume_signal:
  assumes "i < length df"
  shows "calculate_volume_signal p df ! i =
     (df ! i)\<lparr>volume_ma := rolling_mean p (map volume df) ! i,
              volume_signal := vol_sig (volume (df ! i)) (rolling_mean p (map volume df) ! i)
                 (close (df ! i)) (shift1 (map close df) ! i)\<rparr>"
  using assms
  by (simp add: calculate_volume_signal_def Let_def vol_sig_def high_volume_def)

lemma indicators_nth:
  assumes "i < length bars"
  shows "close (indicators bars ! i) = close (bars ! i)"
    and "volume (indicators bars ! i) = volume (bars ! i)"
    and "rsi (indicators bars ! i) = rsi_series 14 (map close bars) ! i"
    and "macd (indicators bars ! i) = Fin (macd_series 12 26 (map close bars) ! i)"
    and "macd_signal (indicators bars ! i)
           = Fin (ewm_mean 9 (macd_series 12 26 (map close bars)) ! i)"
    and "bb_middle (indicators bars ! i) = rolling_mean 20 (map close bars) ! i"
    and "bb_upper (indicators bars ! i) = bb_upper_series 20 2 (map close bars) ! i"
    and "bb_lower (indicators bars ! i) = bb_lower_series 20 2 (map close bars) ! i"
    and "ema_fast (indicators bars ! i) = Fin (ewm_mean 9 (map close bars) ! i)"
    and "ema_slow (indicators bars ! i) = Fin (ewm_mean 21 (map close bars) ! i)"
    and "volume_ma (indicators bars ! i) = rolling_mean 20 (map volume bars) ! i"
    and "volume_signal (indicators bars ! i) =
           vol_sig (volume (bars ! i)) (rolling_mean 20 (map volume bars) ! i)
             (close (bars ! i)) (shift1 (map close bars) ! i)"
proof -
  have c: "close (copy_frame bars ! i) = close (bars ! i)"
    and v: "volume (copy_frame bars ! i) = volume (bars ! i)"
    using assms by (simp_all add: copy_frame_def bar.extend_def)
  show "close (indicators bars ! i) = close (bars ! i)"
    and "volume (indicators bars ! i) = volume (bars ! i)"
    and "rsi (indicators bars ! i) = rsi_series 14 (map close bars) ! i"
    and "macd (indicators bars ! i) = Fin (macd_series 12 26 (map close bars) ! i)"
    and "macd_signal (indicators bars ! i)
           = Fin (ewm_mean 9 (macd_series 12 26 (map close bars)) ! i)"
    and "bb_middle (indicators bars ! i) = rolling_mean 20 (map close bars) ! i"
    and "bb_upper (indicators bars ! i) = bb_upper_series 20 2 (map close bars) ! i"
    and "bb_lower (indicators bars ! i) = bb_lower_series 20 2 (map close bars) ! i"
    and "ema_fast (indicators bars ! i) = Fin (ewm_mean 9 (map close bars) ! i)"
    and "ema_slow (indicators bars ! i) = Fin (ewm_mean 21 (map close bars) ! i)"
    and "volume_ma (indicators bars ! i) = rolling_mean 20 (map volume bars) ! i"
    and "volume_signal (indicators bars ! i) =
           vol_sig (volume (bars ! i)) (rolling_mean 20 (map volume bars) ! i)
             (close (bars ! i)) (shift1 (map close bars) ! i)"
    using assms c v
    by (simp_all add: indicators_def nth_calculate_volume_signal nth_calculate_ema
        nth_calculate_bollinger_bands nth_calculate_macd nth_calculate_rsi)
qed

subsection \<open>Exponential averages after a constant start\<close>

lemma ewm_from_replicate:
  "ewm_from a c (replicate k c @ xs) = replicate k c @ ewm_from a c xs"
  by (induction k) (simp_all add: algebra_simps)

lemma ewm_mean_replicate:
  "ewm_mean s (replicate (Suc k) c @ xs) = replicate (Suc k) c @ ewm_from (2 / (real s + 1)) c xs"
  by (simp add: ewm_from_replicate)

lemma shift1_nth:
  assumes "0 < i" "i < length xs"
  shows "shift1 xs ! i = Fin (xs ! (i - 1))"
proof -
  from assms obtain k where i: "i = Suc k" by (cases i) auto
  from assms obtain x ys where xs: "xs = x # ys" by (cases xs) auto
  have "k < length (butlast xs)" using assms i by simp
  then have "map Fin (butlast xs) ! k = Fin (xs ! k)"
    by (simp add: nth_butlast)
  then show ?thesis
    unfolding i by (simp add: xs del: butlast.simps)
qed

subsection \<open>Crossovers that force a BUY\<close>

lemma rsi_rule_cases:
  "rsi_rule l (b, s) = (b + 2, s) \<or> rsi_rule l (b, s) = (b, s + 2) \<or> rsi_rule l (b, s) = (b, s)"
  by (simp add: rsi_rule_def)

lemma bollinger_rule_cases:
  "bollinger_rule l (b, s) = (b + 3 / 2, s) \<or> bollinger_rule l (b, s) = (b, s + 3 / 2)
   \<or> bollinger_rule l (b, s) = (b, s)"
  by (simp add: bollinger_rule_def)

lemma buy_on_crossovers:
  assumes "macd_cross_up l p" "golden_cross l p" "fgt (Fin (close l)) (ema_slow l)"
    and "volume_signal l \<noteq> - 1"
  shows "score_rows l p = BUY"
proof -
  have m: "macd_rule l p (b, s) = (b + 2, s)" for b s
    using assms(1) by (simp add: macd_rule_def macd_cross_up_def)
  have e: "ema_rule l p (b, s) = (b + 2, s)" for b s
    using assms(2) by (simp add: ema_rule_def golden_cross_def)
  have t: "trend_rule l (b, s) = (b + 1, s)" for b s
    using assms(3) by (simp add: trend_rule_def)
  have v: "volume_rule l (b, s) = (b + 3 / 2, s) \<or> volume_rule l (b, s) = (b, s)" for b s
    using assms(4) by (simp add: volume_rule_def)
  obtain b1 s1 where r1: "rsi_rule l (0, 0) = (b1, s1)" and k1: "0 \<le> b1" "s1 \<le> 2" "0 \<le> s1"
    using rsi_rule_cases [of l 0 0] by auto
  obtain b2 s2 where r2: "bollinger_rule l (b1 + 2, s1) = (b2, s2)"
    and k2: "b1 + 2 \<le> b2" "s2 \<le> s1 + 3 / 2"
    using bollinger_rule_cases [of l "b1 + 2" s1] by auto
  obtain b3 where r3: "volume_rule l (b2 + 2, s2) = (b3, s2)" and k3: "b2 + 2 \<le> b3"
    using v [of "b2 + 2" s2] by auto
  have "scores l p = (b3 + 1, s2)"
    by (simp add: scores_def r1 m r2 e r3 t)
  then show ?thesis
    using k1 k2 k3 by (simp add: score_rows_def decide_def)
qed

lemma nth_replicate_two:
  "(replicate n x @ [a, b]) ! n = a" "(replicate n x @ [a, b]) ! Suc n = b"
  by (simp_all add: nth_append)

lemma vol_sig_not_falling: "\<not> flt (Fin c) pc \<Longrightarrow> vol_sig v vma c pc \<noteq> - 1"
  by (simp add: vol_sig_def Let_def)

lemma generate_signal_rows:
  assumes "length bars = Suc (Suc n)"
  shows "generate_signal bars = score_rows (indicators bars ! Suc n) (indicators bars ! n)"
  using assms by (simp add: generate_signal_def Let_def)

lemma dip_then_rise_signal:
  assumes c: "map close bars = replicate (Suc k) 100 @ [99, x]" and x: "105 \<le> x"
  shows "generate_signal bars = BUY"
proof -
  have len: "length bars = Suc (Suc (Suc k))"
    using arg_cong [OF c, of length] by simp
  have i1: "Suc k < length bars" and i2: "Suc (Suc k) < length bars"
    using len by simp_all
  let ?l = "indicators bars ! Suc (Suc k)" and ?p = "indicators bars ! Suc k"
  have ema: "ewm_mean s (map close bars)
      = replicate (Suc k) 100 @ ewm_from (2 / (real s + 1)) 100 [99, x]" for s
    unfolding c by (rule ewm_mean_replicate)
  have macd_s: "macd_series 12 26 (map close bars)
      = replicate (Suc k) 0 @ [2 / 27 - 2 / 13,
          (11 / 13 * (100 - 2 / 13) + 2 / 13 * x) - (25 / 27 * (100 - 2 / 27) + 2 / 27 * x)]"
    by (simp add: macd_series_def Let_def ema zip_replicate map_replicate_const
        del: replicate_Suc)
  have sig_s: "ewm_mean 9 (macd_series 12 26 (map close bars))
      = replicate (Suc k) 0 @ ewm_from (1 / 5) 0 [2 / 27 - 2 / 13,
          (11 / 13 * (100 - 2 / 13) + 2 / 13 * x) - (25 / 27 * (100 - 2 / 27) + 2 / 27 * x)]"
    unfolding macd_s using ewm_mean_replicate [of 9 k 0] by (simp del: replicate_Suc)
  have macd_n: "macd_series 12 26 (map close bars) ! Suc k = - (28 / 351)"
    "macd_series 12 26 (map close bars) ! Suc (Suc k)
       = (11 / 13 * (100 - 2 / 13) + 2 / 13 * x) - (25 / 27 * (100 - 2 / 27) + 2 / 27 * x)"
    by (simp_all add: macd_s nth_replicate_two del: replicate_Suc)
  have sig_n: "ewm_mean 9 (macd_series 12 26 (map close bars)) ! Suc k = - (28 / 1755)"
    "ewm_mean 9 (macd_series 12 26 (map close bars)) ! Suc (Suc k)
       = 4 / 5 * - (28 / 1755)
         + 1 / 5 * ((11 / 13 * (100 - 2 / 13) + 2 / 13 * x)
                    - (25 / 27 * (100 - 2 / 27) + 2 / 27 * x))"
    by (simp_all add: sig_s nth_replicate_two del: replicate_Suc)
  have cl: "close (bars ! Suc (Suc k)) = x" "close (bars ! Suc k) = 99"
    using nth_map [OF i2, of close] nth_map [OF i1, of close]
    by (simp_all add: c nth_replicate_two del: replicate_Suc)
  have m: "macd_cross_up ?l ?p"
    using x
    by (simp add: macd_cross_up_def indicators_nth [OF i1] indicators_nth [OF i2]
        macd_n sig_n fgt_def; argo)
  have g: "golden_cross ?l ?p"
    using x
    by (simp add: golden_cross_def indicators_nth [OF i1] indicators_nth [OF i2]
        ema nth_replicate_two fgt_def del: replicate_Suc; argo)
  have t: "fgt (Fin (close ?l)) (ema_slow ?l)"
    using x
    by (simp add: indicators_nth [OF i2] ema nth_replicate_two fgt_def cl del: replicate_Suc;
        argo)
  have "shift1 (map close bars) ! Suc (Suc k) = Fin 99"
    using shift1_nth [of "Suc (Suc k)" "map close bars"] i2
    by (simp add: c nth_replicate_two del: replicate_Suc)
  then have v: "volume_signal ?l \<noteq> - 1"
    using x by (simp add: indicators_nth [OF i2] cl vol_sig_not_falling)
  from buy_on_crossovers [OF m g t v] show ?thesis
    by (simp add: generate_signal_rows [OF len])
qed

lemma dip_and_jump_signal:
  assumes "map close bars = replicate (Suc k) 100 @ [99, 110]"
  shows "generate_signal bars = BUY"
  by (rule dip_then_rise_signal [OF assms]) simp

lemma nth_rolling_mean:
  "i < length xs \<Longrightarrow>
   rolling_mean w xs ! i = (if Suc i < w then NaN else Fin (mean (window w xs i)))"
  by (simp add: rolling_mean_def)

lemma nth_rolling_std:
  "i < length xs \<Longrightarrow>
   rolling_std w xs ! i = (if Suc i < w then NaN else std_ddof1 (window w xs i))"
  by (simp add: rolling_std_def)

lemma nth_rsi_series:
  "i < length closes \<Longrightarrow>
   rsi_series p closes ! i =
     fsub (Fin 100) (fdiv (Fin 100) (fadd (Fin 1)
       (fdiv (rolling_mean p (map where_pos (diff closes)) ! i)
             (rolling_mean p (map (\<lambda>d. - where_neg d) (diff closes)) ! i))))"
  by (simp add: rsi_series_def Let_def)

lemma nth_bb_upper_series:
  "i < length closes \<Longrightarrow>
   bb_upper_series p k closes ! i
     = fadd (rolling_mean p closes ! i) (fmul (rolling_std p closes ! i) (Fin k))"
  by (simp add: bb_upper_series_def)

lemma nth_bb_lower_series:
  "i < length closes \<Longrightarrow>
   bb_lower_series p k closes ! i
     = fsub (rolling_mean p closes ! i) (fmul (rolling_std p closes ! i) (Fin k))"
  by (simp add: bb_lower_series_def)

lemma short_frame_missing:
  assumes "i < length bars" "Suc i < 14"
  shows "rsi (indicators bars ! i) = NaN" "bb_upper (indicators bars ! i) = NaN"
    "bb_lower (indicators bars ! i) = NaN" "volume_ma (indicators bars ! i) = NaN"
  using assms
  by (simp_all add: indicators_nth [OF assms(1)] nth_rsi_series nth_bb_upper_series
      nth_bb_lower_series nth_rolling_mean fsub_def)

subsection \<open>The rows that the pipeline produces\<close>

lemma std_ddof1_cases: "std_ddof1 xs = NaN \<or> (\<exists>y. std_ddof1 xs = Fin y \<and> 0 \<le> y)"
proof (cases "length xs \<le> 1")
  case True
  then show ?thesis by (simp add: std_ddof1_def)
next
  case False
  then have "0 < real (length xs) - 1" by simp
  moreover have "0 \<le> (\<Sum>x\<leftarrow>xs. (x - mean xs)\<^sup>2)" by (rule sum_list_nonneg) auto
  ultimately have "0 \<le> (\<Sum>x\<leftarrow>xs. (x - mean xs)\<^sup>2) / (real (length xs) - 1)" by simp
  then show ?thesis by (simp add: std_ddof1_def)
qed

lemma rolling_std_cases:
  assumes "i < length xs"
  shows "rolling_std w xs ! i = NaN \<or> (\<exists>y. rolling_std w xs ! i = Fin y \<and> 0 \<le> y)"
  using assms std_ddof1_cases [of "window w xs i"] by (simp add: nth_rolling_std)

lemma rolling_mean_cases:
  assumes "i < length xs"
  shows "rolling_mean w xs ! i = NaN \<or> (\<exists>m. rolling_mean w xs ! i = Fin m)"
  using assms by (simp add: nth_rolling_mean)

lemma band_values:
  assumes "m = NaN \<or> (\<exists>a. m = Fin a)" "sd = NaN \<or> (\<exists>y. sd = Fin y \<and> 0 \<le> y)"
  shows "\<not> flt (fadd m (fmul sd (Fin 2))) (fsub m (fmul sd (Fin 2)))"
    and "(fsub m (fmul sd (Fin 2)) = NaN) = (fadd m (fmul sd (Fin 2)) = NaN)"
  using assms by (auto simp: fsub_def)

lemma indicators_bands_not_crossed:
  assumes "i < length bars"
  shows "\<not> flt (bb_upper (indicators bars ! i)) (bb_lower (indicators bars ! i))"
proof -
  have j: "i < length (map close bars)" using assms by simp
  show ?thesis
    unfolding indicators_nth [OF assms] nth_bb_upper_series [OF j] nth_bb_lower_series [OF j]
    by (rule band_values(1) [OF rolling_mean_cases [OF j] rolling_std_cases [OF j]])
qed

lemma indicators_bands_missing_together:
  assumes "i < length bars"
  shows "(bb_lower (indicators bars ! i) = NaN) = (bb_upper (indicators bars ! i) = NaN)"
proof -
  have j: "i < length (map close bars)" using assms by simp
  show ?thesis
    unfolding indicators_nth [OF assms] nth_bb_upper_series [OF j] nth_bb_lower_series [OF j]
    by (rule band_values(2) [OF rolling_mean_cases [OF j] rolling_std_cases [OF j]])
qed

section \<open>The decision of the signal scorer\<close>

lemma generate_signal_latest:
  assumes "2 \<le> length bars"
  shows "generate_signal bars = score_rows (latest_row bars) (prev_row bars)"
  using assms by (simp add: generate_signal_def Let_def latest_row_def prev_row_def)

lemma latest_row_bands:
  assumes "2 \<le> length bars"
  shows "\<not> flt (bb_upper (latest_row bars)) (bb_lower (latest_row bars))"
  unfolding latest_row_def using assms by (intro indicators_bands_not_crossed) simp

text \<open>
  C1. For every bar series of at least two bars, with the latest and the previous indicator
  row that the pipeline derives from it, \<open>generate_signal\<close> returns BUY exactly when the buy
  score is at least 5 and exceeds the sell score, SELL exactly when the sell score is at
  least 5 and exceeds the buy score, and HOLD otherwise; equal scores give HOLD. The scores
  are the sums of the table's weights 2, 2, 1.5, 2, 1.5 and 1.
\<close>

theorem signal_by_table:
  assumes "2 \<le> length bars"
  shows "(generate_signal bars = BUY \<longleftrightarrow>
            table_buy_score (latest_row bars) (prev_row bars) \<ge> 5
            \<and> table_buy_score (latest_row bars) (prev_row bars)
                > table_sell_score (latest_row bars) (prev_row bars))
       \<and> (generate_signal bars = SELL \<longleftrightarrow>
            table_sell_score (latest_row bars) (prev_row bars) \<ge> 5
            \<and> table_sell_score (latest_row bars) (prev_row bars)
                > table_buy_score (latest_row bars) (prev_row bars))
       \<and> (generate_signal bars = HOLD \<longleftrightarrow>
            \<not> (table_buy_score (latest_row bars) (prev_row bars) \<ge> 5
               \<and> table_buy_score (latest_row bars) (prev_row bars)
                   > table_sell_score (latest_row bars) (prev_row bars))
          \<and> \<not> (table_sell_score (latest_row bars) (prev_row bars) \<ge> 5
               \<and> table_sell_score (latest_row bars) (prev_row bars)
                   > table_buy_score (latest_row bars) (prev_row bars)))
       \<and> (table_buy_score (latest_row bars) (prev_row bars)
            = table_sell_score (latest_row bars) (prev_row bars)
            \<longrightarrow> generate_signal bars = HOLD)"
  unfolding generate_signal_latest [OF assms] score_rows_def
    scores_table [OF latest_row_bands [OF assms]] decide_def
  by auto

theorem signal_by_table_witness:
  "2 \<le> length (dip_and_jump 1)
   \<and> generate_signal (dip_and_jump 1) = BUY
   \<and> 5 \<le> table_buy_score (latest_row (dip_and_jump 1)) (prev_row (dip_and_jump 1))
   \<and> table_sell_score (latest_row (dip_and_jump 1)) (prev_row (dip_and_jump 1))
       < table_buy_score (latest_row (dip_and_jump 1)) (prev_row (dip_and_jump 1))"
proof -
  have l: "2 \<le> length (dip_and_jump 1)" by (simp add: dip_and_jump_def flat_bars_def)
  have "map close (dip_and_jump 1) = replicate (Suc 0) 100 @ [99, 110]"
    by (simp add: dip_and_jump_def flat_bars_def mk_bar_def)
  then have b: "generate_signal (dip_and_jump 1) = BUY"
    by (rule dip_and_jump_signal)
  from signal_by_table [OF l, THEN conjunct1] b
  have "5 \<le> table_buy_score (latest_row (dip_and_jump 1)) (prev_row (dip_and_jump 1))
   \<and> table_sell_score (latest_row (dip_and_jump 1)) (prev_row (dip_and_jump 1))
       < table_buy_score (latest_row (dip_and_jump 1)) (prev_row (dip_and_jump 1))"
    by simp
  with l b show ?thesis by simp
qed

section \<open>Missing indicator values\<close>

lemma nan_comparisons:
  "\<not> flt NaN b" "\<not> flt a NaN" "\<not> fgt NaN b" "\<not> fgt a NaN"
  "\<not> fle NaN b" "\<not> fle a NaN" "\<not> fge NaN b" "\<not> fge a NaN"
  by (simp_all add: fgt_def fge_def flt_NaN_right fle_NaN_right)

lemma undefined_is_NaN: "(\<not> defined v) = (v = NaN)"
  by (simp add: defined_def)

lemma rsi_rule_missing: "rsi l = NaN \<Longrightarrow> rsi_rule l x = x"
  by (cases x) (simp add: rsi_rule_def nan_comparisons)

lemma macd_rule_missing:
  "macd l = NaN \<or> macd_signal l = NaN \<or> macd p = NaN \<or> macd_signal p = NaN
   \<Longrightarrow> macd_rule l p x = x"
  by (cases x) (auto simp: macd_rule_def nan_comparisons)

lemma bollinger_rule_missing:
  "bb_lower l = NaN \<Longrightarrow> bb_upper l = NaN \<Longrightarrow> bollinger_rule l x = x"
  by (cases x) (simp add: bollinger_rule_def nan_comparisons)

lemma ema_rule_missing:
  "ema_fast l = NaN \<or> ema_slow l = NaN \<or> ema_fast p = NaN \<or> ema_slow p = NaN
   \<Longrightarrow> ema_rule l p x = x"
  by (cases x) (auto simp: ema_rule_def nan_comparisons)

lemma volume_rule_missing: "volume_signal l = 0 \<Longrightarrow> volume_rule l x = x"
  by (cases x) (simp add: volume_rule_def)

lemma trend_rule_missing: "ema_slow l = NaN \<Longrightarrow> trend_rule l x = x"
  by (cases x) (simp add: trend_rule_def nan_comparisons)

lemma volume_signal_needs_average:
  assumes "i < length bars" "volume_ma (indicators bars ! i) = NaN"
  shows "volume_signal (indicators bars ! i) = 0"
  using assms(2)
  by (simp add: indicators_nth [OF assms(1)] vol_sig_def fgt_def)

lemma scores_skip_missing:
  assumes b: "(bb_lower l = NaN) = (bb_upper l = NaN)"
    and v: "volume_ma l = NaN \<Longrightarrow> volume_signal l = 0"
  shows "scores l p = remaining_scores l p"
proof -
  define s1 where "s1 = rsi_rule l (0, 0)"
  define s2 where "s2 = macd_rule l p s1"
  define s3 where "s3 = bollinger_rule l s2"
  define s4 where "s4 = ema_rule l p s3"
  define s5 where "s5 = volume_rule l s4"
  have 1: "(if defined (rsi l) then rsi_rule l (0, 0) else (0, 0)) = s1"
    unfolding s1_def by (simp add: undefined_is_NaN rsi_rule_missing)
  have 2: "(if defined (macd l) \<and> defined (macd_signal l)
                   \<and> defined (macd p) \<and> defined (macd_signal p)
                then macd_rule l p s1 else s1) = s2"
    unfolding s2_def using macd_rule_missing [of l p s1]
    by (auto simp: undefined_is_NaN)
  have 3: "(if defined (bb_lower l) \<and> defined (bb_upper l)
                then bollinger_rule l s2 else s2) = s3"
    unfolding s3_def using bollinger_rule_missing [of l s2] b
    by (auto simp: undefined_is_NaN)
  have 4: "(if defined (ema_fast l) \<and> defined (ema_slow l)
                   \<and> defined (ema_fast p) \<and> defined (ema_slow p)
                then ema_rule l p s3 else s3) = s4"
    unfolding s4_def using ema_rule_missing [of l p s3]
    by (auto simp: undefined_is_NaN)
  have 5: "(if defined (volume_ma l) then volume_rule l s4 else s4) = s5"
    unfolding s5_def using volume_rule_missing [of l s4] v
    by (auto simp: undefined_is_NaN)
  have 6: "(if defined (ema_slow l) then trend_rule l s5 else s5) = trend_rule l s5"
    using trend_rule_missing [of l s5] by (auto simp: undefined_is_NaN)
  have "remaining_scores l p = trend_rule l s5"
    unfolding remaining_scores_def Let_def 1 2 3 4 5 6 ..
  also have "\<dots> = scores l p"
    by (simp add: scores_def s1_def s2_def s3_def s4_def s5_def)
  finally show ?thesis ..
qed

lemma generate_signal_short: "length bars < 2 \<Longrightarrow> generate_signal bars = HOLD"
  by (simp add: generate_signal_def)

text \<open>
  C3, as the specification states it, fails: a missing value does not force HOLD. On the
  three bars with closes 100, 99, 110 the RSI, both Bollinger bands and the volume average
  of the latest row are NaN (their windows are not full), and \<open>generate_signal\<close> returns
  BUY: the MACD crossover, the golden cross and the trend rule add up to 5.
\<close>

theorem signal_despite_missing_values:
  "rsi (indicators (dip_and_jump 1) ! 2) = NaN
   \<and> bb_upper (indicators (dip_and_jump 1) ! 2) = NaN
   \<and> bb_lower (indicators (dip_and_jump 1) ! 2) = NaN
   \<and> volume_ma (indicators (dip_and_jump 1) ! 2) = NaN
   \<and> length (dip_and_jump 1) = 3
   \<and> generate_signal (dip_and_jump 1) = BUY"
proof -
  have n: "length (dip_and_jump 1) = 3" by (simp add: dip_and_jump_def flat_bars_def)
  have i: "2 < length (dip_and_jump 1)" unfolding n by simp
  have j: "Suc 2 < 14" by simp
  have "map close (dip_and_jump 1) = replicate (Suc 0) 100 @ [99, 110]"
    by (simp add: dip_and_jump_def flat_bars_def mk_bar_def)
  then have b: "generate_signal (dip_and_jump 1) = BUY"
    by (rule dip_and_jump_signal)
  from short_frame_missing [OF i j] n b show ?thesis by (intro conjI)
qed

text \<open>
  C3, amended. A missing (NaN) indicator value makes every comparison that reads it false,
  so a rule that reads a missing value adds to neither score, and the rules whose values
  are all defined decide alone: for every bar series of at least two bars,
  \<open>generate_signal\<close> returns the decision on the scores of the remaining rules, computed
  from the latest and the previous row of the pipeline with every rule that reads a missing
  value left out. The result is HOLD only when those remaining scores give HOLD; with fewer
  than two bars the result is HOLD.
\<close>

theorem missing_values_disable_rules:
  "(2 \<le> length bars \<longrightarrow>
      generate_signal bars = decide (remaining_scores (latest_row bars) (prev_row bars)))
   \<and> (length short < 2 \<longrightarrow> generate_signal short = HOLD)"
proof (intro conjI impI)
  assume l: "2 \<le> length bars"
  have i: "length bars - 1 < length bars" using l by simp
  have "scores (latest_row bars) (prev_row bars)
          = remaining_scores (latest_row bars) (prev_row bars)"
    unfolding latest_row_def
    by (rule scores_skip_missing [OF indicators_bands_missing_together [OF i]
          volume_signal_needs_average [OF i]])
  then show "generate_signal bars = decide (remaining_scores (latest_row bars) (prev_row bars))"
    by (simp add: generate_signal_latest [OF l] score_rows_def)
next
  assume "length short < 2"
  then show "generate_signal short = HOLD" by (rule generate_signal_short)
qed

theorem missing_values_disable_rules_witness:
  "2 \<le> length (dip_and_jump 1)
   \<and> rsi (latest_row (dip_and_jump 1)) = NaN
   \<and> bb_lower (latest_row (dip_and_jump 1)) = NaN
   \<and> volume_ma (latest_row (dip_and_jump 1)) = NaN
   \<and> decide (remaining_scores (latest_row (dip_and_jump 1)) (prev_row (dip_and_jump 1))) = BUY
   \<and> length ([] :: bar list) < 2
   \<and> generate_signal [] = HOLD"
proof -
  have n: "length (dip_and_jump 1) = 3" by (simp add: dip_and_jump_def flat_bars_def)
  have l: "2 \<le> length (dip_and_jump 1)" unfolding n by simp
  have i: "2 < length (dip_and_jump 1)" unfolding n by simp
  have j: "Suc 2 < 14" by simp
  have r: "latest_row (dip_and_jump 1) = indicators (dip_and_jump 1) ! 2"
    unfolding latest_row_def n by simp
  have "map close (dip_and_jump 1) = replicate (Suc 0) 100 @ [99, 110]"
    by (simp add: dip_and_jump_def flat_bars_def mk_bar_def)
  then have b: "generate_signal (dip_and_jump 1) = BUY"
    by (rule dip_and_jump_signal)
  have e: "length ([] :: bar list) < 2" by simp
  note t = missing_values_disable_rules [of "dip_and_jump 1" "[]"]
  have 1: "decide (remaining_scores (latest_row (dip_and_jump 1)) (prev_row (dip_and_jump 1)))
             = BUY"
    using t [THEN conjunct1, THEN mp, OF l] b by simp
  have 2: "generate_signal [] = HOLD"
    using t [THEN conjunct2, THEN mp, OF e] .
  from l short_frame_missing(1,3,4) [OF i j, folded r] 1 e 2 show ?thesis
    by (intro conjI)
qed

section \<open>Properties of the arithmetic of doubles\<close>

lemma round_even_near:
  assumes "\<bar>y - of_int m\<bar> < 1 / 2"
  shows "round_even y = m"
proof (cases "of_int m \<le> y")
  case True
  from assms have "y < of_int m + 1" by linarith
  with True have f: "\<lfloor>y\<rfloor> = m" by (intro floor_unique)
  from assms True have "y - of_int m < 1 / 2" by linarith
  with f show ?thesis by (simp add: round_even_def Let_def)
next
  case False
  have m1: "real_of_int (m - 1) = real_of_int m - 1" by simp
  from assms have "of_int (m - 1) \<le> y" unfolding m1 by linarith
  moreover from False have "y < of_int (m - 1) + 1" unfolding m1 by linarith
  ultimately have f: "\<lfloor>y\<rfloor> = m - 1" by (intro floor_unique)
  from False assms have "1 / 2 < y - of_int (m - 1)" unfolding m1 by linarith
  then have "\<not> y - of_int (m - 1) < 1 / 2" by linarith
  with f \<open>1 / 2 < y - of_int (m - 1)\<close> show ?thesis
    by (simp add: round_even_def Let_def)
qed

text \<open>
  The double of \<open>x\<close> is \<open>m * u\<close> when \<open>u\<close> is the unit in the last place of the binade of
  \<open>x\<close> and \<open>m * u\<close> is nearer to \<open>x\<close> than half a unit.
\<close>

lemma double_eval:
  assumes u: "u = 2 powr of_int e"
    and lo: "2 ^ 52 * u \<le> \<bar>x\<bar>" and hi: "\<bar>x\<bar> < 2 ^ 53 * u"
    and near: "\<bar>x - of_int m * u\<bar> < u / 2"
  shows "double x = of_int m * u"
proof -
  have up: "0 < u" by (simp add: u)
  from lo up have x: "x \<noteq> 0" by auto
  have p52: "(2 :: real) powr (of_int (e + 52)) = 2 ^ 52 * u"
    by (simp add: u powr_add powr_numeral ac_simps)
  have "(2 :: real) powr (of_int (e + 52) + 1) = 2 powr (of_int (e + 52)) * 2"
    by (simp add: powr_add)
  then have p53: "(2 :: real) powr (of_int (e + 52) + 1) = 2 ^ 53 * u"
    by (simp only: p52) simp
  have "2 powr (of_int (e + 52)) \<le> \<bar>x\<bar> \<and> \<bar>x\<bar> < 2 powr (of_int (e + 52) + 1)"
    using lo hi by (simp only: p52 p53)
  then have "\<lfloor>log 2 \<bar>x\<bar>\<rfloor> = e + 52"
    using x by (subst floor_log_eq_powr_iff) simp_all
  then have e: "2 powr of_int (\<lfloor>log 2 \<bar>x\<bar>\<rfloor> - 52) = u"
    by (simp add: u)
  have "x / u - of_int m = (x - of_int m * u) / u"
    using up by (simp add: field_simps)
  then have "\<bar>x / u - of_int m\<bar> = \<bar>x - of_int m * u\<bar> / u"
    using up by (simp only: abs_divide)
  also have "\<dots> < 1 / 2" using near up by (simp add: field_simps)
  finally have "round_even (x / u) = m" by (rule round_even_near)
  with x e show ?thesis by (simp add: double_def Let_def)
qed


section \<open>Properties of the position ledger\<close>

lemma pnl_pct_of_finite:
  "entry \<noteq> 0 \<Longrightarrow>
   pnl_pct_of rnd price entry = Fin (rnd (rnd (rnd (price - entry) / entry) * 100))"
  by (simp add: pnl_pct_of_def)

lemma pnl_pct_of_eval:
  assumes "entry \<noteq> 0" "rnd (price - entry) = a" "rnd (a / entry) = b" "rnd (b * 100) = c"
  shows "pnl_pct_of rnd price entry = Fin c"
  using assms by (simp add: pnl_pct_of_finite)

lemma holding_track_equity [simp]: "holding (track_equity rnd price d s) = holding s"
  by (simp add: track_equity_def Let_def)

lemma trades_track_equity [simp]: "trades (track_equity rnd price d s) = trades s"
  by (simp add: track_equity_def Let_def)

lemma capital_track_equity [simp]: "capital (track_equity rnd price d s) = capital s"
  by (simp add: track_equity_def Let_def)

lemma dates_track_equity [simp]:
  "map date (equity_curve (track_equity rnd price d s)) = map date (equity_curve s) @ [d]"
  by (simp add: track_equity_def Let_def)

lemma close_position_fields [simp]:
  "pnl (close_position rnd p d price pct why)
     = rnd (rnd (price - entry_price p) * real_of_int (shares p))"
  "exit_price (close_position rnd p d price pct why) = price"
  "entry_price (close_position rnd p d price pct why) = entry_price p"
  "shares (close_position rnd p d price pct why) = shares p"
  "entry_date (close_position rnd p d price pct why) = entry_date p"
  "exit_date (close_position rnd p d price pct why) = d"
  "reason (close_position rnd p d price pct why) = why"
  "pnl_pct (close_position rnd p d price pct why) = pct"
  by (simp_all add: close_position_def position.extend_def trade.fields_def)

lemma execute_trades_open:
  assumes "holding s = Some p"
  shows "execute_trades rnd cfg sg price d s =
     Inr (if fst (exit_decision cfg sg (pnl_pct_of rnd price (entry_price p)))
          then s\<lparr>capital := rnd (capital s + rnd (real_of_int (shares p) * price)),
                 trades := trades s @ [close_position rnd p d price
                    (pnl_pct_of rnd price (entry_price p))
                    (snd (exit_decision cfg sg (pnl_pct_of rnd price (entry_price p))))],
                 holding := None\<rparr>
          else s)"
  using assms by (simp add: execute_trades_def Let_def split: prod.splits)

lemma d_stop_diff: "double ((783 / 8) - 100) = - (17 / 8)"
  using double_eval [of "1 / 2 ^ 51" "- 51" "(783 / 8) - 100" "- 4785074604081152"]
  by (simp add: powr_minus_divide powr_numeral)

lemma d_stop_ratio: "double ((- (17 / 8)) / 100) = - (6124895493223875 / 288230376151711744)"
  using double_eval [of "1 / 2 ^ 58" "- 58" "(- (17 / 8)) / 100" "- 6124895493223875"]
  by (simp add: powr_minus_divide powr_numeral)

lemma d_stop_pct: "double ((- (6124895493223875 / 288230376151711744)) * 100) = - (17 / 8)"
  using double_eval [of "1 / 2 ^ 51" "- 51" "(- (6124895493223875 / 288230376151711744)) * 100" "- 4785074604081152"]
  by (simp add: powr_minus_divide powr_numeral)

lemma pct_stop: "pnl_pct_of double (783 / 8) 100 = Fin (- (17 / 8))"
  by (rule pnl_pct_of_eval [OF _ d_stop_diff d_stop_ratio d_stop_pct]) simp

lemma d_take_diff: "double (105 - 100) = 5"
  using double_eval [of "1 / 2 ^ 50" "- 50" "105 - 100" "5629499534213120"]
  by (simp add: powr_minus_divide powr_numeral)

lemma d_take_ratio: "double (5 / 100) = 3602879701896397 / 72057594037927936"
  using double_eval [of "1 / 2 ^ 57" "- 57" "5 / 100" "7205759403792794"]
  by (simp add: powr_minus_divide powr_numeral)

lemma d_take_pct: "double ((3602879701896397 / 72057594037927936) * 100) = 5"
  using double_eval [of "1 / 2 ^ 50" "- 50" "(3602879701896397 / 72057594037927936) * 100" "5629499534213120"]
  by (simp add: powr_minus_divide powr_numeral)

lemma pct_take: "pnl_pct_of double 105 100 = Fin (5)"
  by (rule pnl_pct_of_eval [OF _ d_take_diff d_take_ratio d_take_pct]) simp

lemma d_keep_diff: "double (101 - 100) = 1"
  using double_eval [of "1 / 2 ^ 52" "- 52" "101 - 100" "4503599627370496"]
  by (simp add: powr_minus_divide powr_numeral)

lemma d_keep_ratio: "double (1 / 100) = 5764607523034235 / 576460752303423488"
  using double_eval [of "1 / 2 ^ 59" "- 59" "1 / 100" "5764607523034235"]
  by (simp add: powr_minus_divide powr_numeral)

lemma d_keep_pct: "double ((5764607523034235 / 576460752303423488) * 100) = 1"
  using double_eval [of "1 / 2 ^ 52" "- 52" "(5764607523034235 / 576460752303423488) * 100" "4503599627370496"]
  by (simp add: powr_minus_divide powr_numeral)

lemma pct_keep: "pnl_pct_of double 101 100 = Fin (1)"
  by (rule pnl_pct_of_eval [OF _ d_keep_diff d_keep_ratio d_keep_pct]) simp

lemma d_edge_diff: "double (129 - 100) = 29"
  using double_eval [of "1 / 2 ^ 48" "- 48" "129 - 100" "8162774324609024"]
  by (simp add: powr_minus_divide powr_numeral)

lemma d_edge_ratio: "double (29 / 100) = 5224175567749775 / 18014398509481984"
  using double_eval [of "1 / 2 ^ 54" "- 54" "29 / 100" "5224175567749775"]
  by (simp add: powr_minus_divide powr_numeral)

lemma d_edge_pct: "double ((5224175567749775 / 18014398509481984) * 100) = 8162774324609023 / 281474976710656"
  using double_eval [of "1 / 2 ^ 48" "- 48" "(5224175567749775 / 18014398509481984) * 100" "8162774324609023"]
  by (simp add: powr_minus_divide powr_numeral)

lemma pct_edge: "pnl_pct_of double 129 100 = Fin (8162774324609023 / 281474976710656)"
  by (rule pnl_pct_of_eval [OF _ d_edge_diff d_edge_ratio d_edge_pct]) simp

text \<open>
  C4. At every bar at which a position is open, whatever the signal, the exit conditions are
  tried in the order SELL signal, stop-loss (the percentage
  \<open>(current_price - entry_price) / entry_price * 100\<close>, each of its three operations
  rounded as the arithmetic rounds, at most \<open>- STOP_LOSS_PCT\<close>), take-profit (the percentage
  at least \<open>TAKE_PROFIT_PCT\<close>). The first that holds closes the position, and the one trade
  appended records it as the exit reason, with the date, the price and the percentage of
  the bar and the entry of the position, whichever later conditions hold as well; when none
  holds the position stays as it is. The step never fails. This holds for every rounding,
  that of doubles included.
\<close>

theorem exit_order:
  assumes "holding s = Some p"
  shows "\<exists>s'. trade_step rnd cfg sg price d s = Inr s'
     \<and> (if sg = SELL
         then exited_with s s' p d price (pnl_pct_of rnd price (entry_price p)) ''SELL signal''
         else if fle (pnl_pct_of rnd price (entry_price p)) (Fin (- STOP_LOSS_PCT cfg))
         then exited_with s s' p d price (pnl_pct_of rnd price (entry_price p)) ''Stop-loss''
         else if fge (pnl_pct_of rnd price (entry_price p)) (Fin (TAKE_PROFIT_PCT cfg))
         then exited_with s s' p d price (pnl_pct_of rnd price (entry_price p)) ''Take-profit''
         else holding s' = Some p \<and> trades s' = trades s \<and> capital s' = capital s)
     \<and> (entry_price p \<noteq> 0 \<longrightarrow> pnl_pct_of rnd price (entry_price p)
           = Fin (rnd (rnd (rnd (price - entry_price p) / entry_price p) * 100)))"
  using assms
  by (simp add: trade_step_def execute_trades_open [OF assms] exit_decision_def
      exited_with_def pnl_pct_of_finite)

theorem exit_order_witness:
  "holding long_ledger = Some bought_at_100
   \<and> fle (pnl_pct_of double (783 / 8) 100) (Fin (- STOP_LOSS_PCT default_config))
   \<and> (\<exists>s'. trade_step double default_config SELL (783 / 8) 101 long_ledger = Inr s'
         \<and> exited_with long_ledger s' bought_at_100 101 (783 / 8) (Fin (- (17 / 8)))
              ''SELL signal'')
   \<and> (\<exists>s'. trade_step double default_config BUY (783 / 8) 101 long_ledger = Inr s'
         \<and> exited_with long_ledger s' bought_at_100 101 (783 / 8) (Fin (- (17 / 8)))
              ''Stop-loss'')
   \<and> (\<exists>s'. trade_step double default_config HOLD 105 101 long_ledger = Inr s'
         \<and> exited_with long_ledger s' bought_at_100 101 105 (Fin 5) ''Take-profit'')
   \<and> (\<exists>s'. trade_step double default_config HOLD 101 101 long_ledger = Inr s'
         \<and> holding s' = Some bought_at_100 \<and> trades s' = [])
   \<and> pnl_pct_of double 129 100 = Fin (8162774324609023 / 281474976710656)
   \<and> (\<exists>s'. trade_step double wide_config HOLD 129 101 long_ledger = Inr s'
         \<and> holding s' = Some bought_at_100 \<and> trades s' = [])"
proof -
  have h: "holding long_ledger = Some bought_at_100"
    by (simp add: long_ledger_def)
  have e: "entry_price bought_at_100 = 100"
    by (simp add: bought_at_100_def)
  have t: "trades long_ledger = []"
    by (simp add: long_ledger_def)
  have c: "STOP_LOSS_PCT default_config = 2" "TAKE_PROFIT_PCT default_config = 4"
    "STOP_LOSS_PCT wide_config = 29" "TAKE_PROFIT_PCT wide_config = 29"
    by (simp_all add: default_config_def wide_config_def)
  have s1: "\<exists>s'. trade_step double default_config SELL (783 / 8) 101 long_ledger = Inr s'
         \<and> exited_with long_ledger s' bought_at_100 101 (783 / 8) (Fin (- (17 / 8)))
              ''SELL signal''"
    using exit_order [OF h, of double default_config SELL "783 / 8" 101]
    by (auto simp: e pct_stop)
  have s2: "\<exists>s'. trade_step double default_config BUY (783 / 8) 101 long_ledger = Inr s'
         \<and> exited_with long_ledger s' bought_at_100 101 (783 / 8) (Fin (- (17 / 8)))
              ''Stop-loss''"
    using exit_order [OF h, of double default_config BUY "783 / 8" 101]
    by (auto simp: e pct_stop c)
  have s3: "\<exists>s'. trade_step double default_config HOLD 105 101 long_ledger = Inr s'
         \<and> exited_with long_ledger s' bought_at_100 101 105 (Fin 5) ''Take-profit''"
    using exit_order [OF h, of double default_config HOLD 105 101]
    by (auto simp: e pct_take c fge_def)
  have s4: "\<exists>s'. trade_step double default_config HOLD 101 101 long_ledger = Inr s'
         \<and> holding s' = Some bought_at_100 \<and> trades s' = []"
    using exit_order [OF h, of double default_config HOLD 101 101]
    by (auto simp: e pct_keep c t fge_def)
  have s5: "\<exists>s'. trade_step double wide_config HOLD 129 101 long_ledger = Inr s'
         \<and> holding s' = Some bought_at_100 \<and> trades s' = []"
    using exit_order [OF h, of double wide_config HOLD 129 101]
    by (auto simp: e pct_edge c t fge_def)
  have sl: "fle (pnl_pct_of double (783 / 8) 100) (Fin (- STOP_LOSS_PCT default_config))"
    by (simp add: pct_stop c)
  from h sl s1 s2 s3 s4 pct_edge s5 show ?thesis by (intro conjI)
qed

lemma execute_trades_flat:
  assumes "holding s = None" "sg \<noteq> BUY"
  shows "execute_trades rnd cfg sg price d s = Inr s"
  using assms by (simp add: execute_trades_def)

lemma buy_is_hold_when_long:
  assumes "holding s = Some p"
  shows "trade_step rnd cfg BUY price d s = trade_step rnd cfg HOLD price d s"
  by (simp add: trade_step_def execute_trades_open [OF assms] exit_decision_def)

lemma trade_step_long_cases:
  assumes "holding s = Some p" "trade_step rnd cfg sg price d s = Inr s'"
  shows "(holding s' = Some p \<and> trades s' = trades s \<and> capital s' = capital s)
       \<or> (holding s' = None \<and> (\<exists>t. trades s' = trades s @ [t]))"
  using assms by (auto simp: trade_step_def execute_trades_open [OF assms(1)] split: if_splits)

lemma trade_step_flat_trades:
  assumes "holding s = None" "trade_step rnd cfg sg price d s = Inr s'"
  shows "trades s' = trades s"
  using assms
  by (auto simp: trade_step_def execute_trades_def split: if_splits sum.splits)

text \<open>
  C2. The ledger holds no position or exactly one. While a position is open, a BUY signal
  acts exactly as a HOLD signal does: no second position is opened, and after the bar the
  position is either the same in every field or closed by an exit, with exactly one trade
  appended. While no position is open, a SELL signal (any signal but BUY) leaves cash,
  position and trades as they are, and no bar appends a trade. The closure at the end of
  the window appends exactly one trade for an open position and nothing otherwise. This
  holds for every rounding of the arithmetic, that of doubles included.
\<close>

theorem single_position:
  "(\<forall>p. holding s = Some p \<longrightarrow>
       trade_step rnd cfg BUY price d s = trade_step rnd cfg HOLD price d s
       \<and> (\<forall>s'. trade_step rnd cfg sg price d s = Inr s' \<longrightarrow>
             (holding s' = Some p \<and> trades s' = trades s \<and> capital s' = capital s)
             \<or> (holding s' = None \<and> (\<exists>t. trades s' = trades s @ [t])))
       \<and> (\<exists>t. trades (close_open_position rnd bars s) = trades s @ [t]))
   \<and> (holding s = None \<longrightarrow>
       (sg \<noteq> BUY \<longrightarrow> (\<exists>s'. trade_step rnd cfg sg price d s = Inr s' \<and> holding s' = None
            \<and> trades s' = trades s \<and> capital s' = capital s))
       \<and> (\<forall>s'. trade_step rnd cfg sg price d s = Inr s' \<longrightarrow> trades s' = trades s)
       \<and> close_open_position rnd bars s = s)"
proof (intro conjI allI impI)
  fix p assume h: "holding s = Some p"
  show "trade_step rnd cfg BUY price d s = trade_step rnd cfg HOLD price d s"
    by (rule buy_is_hold_when_long [OF h])
  show "\<exists>t. trades (close_open_position rnd bars s) = trades s @ [t]"
    using h by (simp add: close_open_position_def Let_def)
next
  fix p s' assume "holding s = Some p" "trade_step rnd cfg sg price d s = Inr s'"
  then show "(holding s' = Some p \<and> trades s' = trades s \<and> capital s' = capital s)
       \<or> (holding s' = None \<and> (\<exists>t. trades s' = trades s @ [t]))"
    by (rule trade_step_long_cases)
next
  assume "holding s = None" "sg \<noteq> BUY"
  then show "\<exists>s'. trade_step rnd cfg sg price d s = Inr s' \<and> holding s' = None
            \<and> trades s' = trades s \<and> capital s' = capital s"
    by (simp add: trade_step_def execute_trades_flat)
next
  fix s' assume "holding s = None" "trade_step rnd cfg sg price d s = Inr s'"
  then show "trades s' = trades s" by (rule trade_step_flat_trades)
next
  assume "holding s = None"
  then show "close_open_position rnd bars s = s" by (simp add: close_open_position_def)
qed

theorem single_position_witness:
  "holding long_ledger = Some bought_at_100
   \<and> trade_step double default_config BUY 101 101 long_ledger
       = trade_step double default_config HOLD 101 101 long_ledger
   \<and> (\<exists>s'. trade_step double default_config BUY 101 101 long_ledger = Inr s'
         \<and> holding s' = Some bought_at_100 \<and> trades s' = trades long_ledger)
   \<and> (\<exists>t. trades (close_open_position double (flat_bars 0 3 100 1) long_ledger)
             = trades long_ledger @ [t])
   \<and> holding flat_ledger = None
   \<and> (\<exists>s'. trade_step double default_config SELL 101 101 flat_ledger = Inr s'
         \<and> holding s' = None
         \<and> trades s' = trades flat_ledger \<and> capital s' = capital flat_ledger)
   \<and> close_open_position double (flat_bars 0 3 100 1) flat_ledger = flat_ledger"
proof -
  have h: "holding long_ledger = Some bought_at_100"
    by (simp add: long_ledger_def)
  have f: "holding flat_ledger = None"
    by (simp add: flat_ledger_def init_sim_def)
  have ne: "SELL \<noteq> BUY" by simp
  have st: "trade_step double default_config BUY 101 101 long_ledger
              = Inr (track_equity double 101 101 long_ledger)"
    by (simp add: trade_step_def execute_trades_open [OF h] exit_decision_def
        bought_at_100_def pct_keep default_config_def fge_def)
  note l = single_position [of long_ledger double default_config 101 101 BUY
      "flat_bars 0 3 100 1"]
  note r = single_position [of flat_ledger double default_config 101 101 SELL
      "flat_bars 0 3 100 1"]
  note l' = l [THEN conjunct1, THEN spec, THEN mp, OF h]
  note r' = r [THEN conjunct2, THEN mp, OF f]
  have 1: "trade_step double default_config BUY 101 101 long_ledger
       = trade_step double default_config HOLD 101 101 long_ledger"
    by (rule l' [THEN conjunct1])
  have 2: "\<exists>t. trades (close_open_position double (flat_bars 0 3 100 1) long_ledger)
             = trades long_ledger @ [t]"
    by (rule l' [THEN conjunct2, THEN conjunct2])
  have 3: "\<exists>s'. trade_step double default_config SELL 101 101 flat_ledger = Inr s'
         \<and> holding s' = None
         \<and> trades s' = trades flat_ledger \<and> capital s' = capital flat_ledger"
    by (rule r' [THEN conjunct1, THEN mp, OF ne])
  have 4: "close_open_position double (flat_bars 0 3 100 1) flat_ledger = flat_ledger"
    by (rule r' [THEN conjunct2, THEN conjunct2])
  have 5: "\<exists>s'. trade_step double default_config BUY 101 101 long_ledger = Inr s'
         \<and> holding s' = Some bought_at_100 \<and> trades s' = trades long_ledger"
    using st h by simp
  from h 1 5 2 f 3 4 show ?thesis by (intro conjI)
qed

section \<open>Cash conservation\<close>






subsection \<open>The run with doubles\<close>
















subsection \<open>The ledger in exact arithmetic\<close>

lemma trade_pnl_ok_close_position [simp]:
  "trade_pnl_ok (close_position (\<lambda>x. x) p d price pct why)"
  by (simp add: trade_pnl_ok_def)


lemma conserved_track_equity [simp]:
  "conserved initial (track_equity rnd price d s) = conserved initial s"
  by (simp add: conserved_def position_cost_def)










subsection \<open>A run with one trade in exact arithmetic\<close>







section \<open>Flat series\<close>

lemma length_flat_bars [simp]: "length (flat_bars t0 n c v) = n"
  by (simp add: flat_bars_def)

lemma close_flat_bars [simp]: "map close (flat_bars t0 n c v) = replicate n c"
  by (simp add: flat_bars_def mk_bar_def map_replicate_const o_def)

lemma volume_flat_bars [simp]: "map volume (flat_bars t0 n c v) = replicate n v"
  by (simp add: flat_bars_def mk_bar_def map_replicate_const o_def)

lemma length_dip_and_jump [simp]: "length (dip_and_jump n) = n + 2"
  by (simp add: dip_and_jump_def)

lemma close_dip_and_jump: "map close (dip_and_jump n) = replicate n 100 @ [99, 110]"
  by (simp add: dip_and_jump_def mk_bar_def)

section \<open>Properties of the broker interface\<close>

text \<open>
  C9, as the specification states it, fails: a side that is neither buy nor sell is not
  rejected. The side \<open>hold\<close> on a market order reaches the order sink as a SELL order.
\<close>

theorem unrecognized_side_reaches_sink:
  "place_order (\<lambda>r. Some r) ''AAPL'' 1 ''hold'' ''market'' None
     = (Some (MarketOrderRequest ''AAPL'' 1 OrderSide_SELL),
        [MarketOrderRequest ''AAPL'' 1 OrderSide_SELL])"
  by (simp add: place_order_def lower_def lower_char_def Let_def)

text \<open>
  C9, amended. A limit order without a limit price (none, or zero) is rejected before it
  reaches the order sink: nothing is submitted and the call returns no order. A limit order
  with a limit price is submitted with that price. A market order needs only quantity and
  side: it is submitted whatever the limit price argument is. The side is BUY when it reads
  \<open>buy\<close> in any letter case; every other side is submitted as SELL.
\<close>

theorem place_order_validation:
  "(\<not> truthy limit_price \<longrightarrow>
      place_order submit symbol qty side ''limit'' limit_price = (None, []))
   \<and> (truthy limit_price \<longrightarrow>
      snd (place_order submit symbol qty side ''limit'' limit_price)
        = [LimitOrderRequest symbol qty
             (if lower side = ''buy'' then OrderSide_BUY else OrderSide_SELL) (the limit_price)])
   \<and> place_order submit symbol qty side ''market'' limit_price
        = (submit (MarketOrderRequest symbol qty
             (if lower side = ''buy'' then OrderSide_BUY else OrderSide_SELL)),
           [MarketOrderRequest symbol qty
             (if lower side = ''buy'' then OrderSide_BUY else OrderSide_SELL)])
   \<and> (lower side \<noteq> ''buy'' \<longrightarrow>
      snd (place_order submit symbol qty side ''market'' limit_price)
        = [MarketOrderRequest symbol qty OrderSide_SELL])"
  by (simp add: place_order_def Let_def)

theorem place_order_validation_witness:
  "\<not> truthy None
   \<and> lower ''sel'' \<noteq> ''buy''
   \<and> place_order (\<lambda>r. Some r) ''MSFT'' 3 ''sel'' ''limit'' None = (None, [])
   \<and> snd (place_order (\<lambda>r. Some r) ''MSFT'' 3 ''sel'' ''market'' None)
       = [MarketOrderRequest ''MSFT'' 3 OrderSide_SELL]
   \<and> truthy (Some 10)
   \<and> snd (place_order (\<lambda>r. Some r) ''MSFT'' 3 ''Buy'' ''limit'' (Some 10))
       = [LimitOrderRequest ''MSFT'' 3 OrderSide_BUY 10]"
proof -
  have n: "\<not> truthy None" by simp
  have l: "lower ''sel'' \<noteq> ''buy''" by (simp add: lower_def lower_char_def)
  have b: "lower ''Buy'' = ''buy''" by (simp add: lower_def lower_char_def)
  have t: "truthy (Some 10)" by simp
  note a = place_order_validation [of None "\<lambda>r. Some r" "''MSFT''" 3 "''sel''"]
  note c = place_order_validation [of "Some 10" "\<lambda>r. Some r" "''MSFT''" 3 "''Buy''"]
  from a n l have
    "place_order (\<lambda>r. Some r) ''MSFT'' 3 ''sel'' ''limit'' None = (None, [])"
    "snd (place_order (\<lambda>r. Some r) ''MSFT'' 3 ''sel'' ''market'' None)
       = [MarketOrderRequest ''MSFT'' 3 OrderSide_SELL]"
    by blast+
  moreover from c t b have
    "snd (place_order (\<lambda>r. Some r) ''MSFT'' 3 ''Buy'' ''limit'' (Some 10))
       = [LimitOrderRequest ''MSFT'' 3 OrderSide_BUY 10]"
    by simp
  ultimately show ?thesis using n l t by blast
qed

section \<open>Bollinger bands\<close>

lemma length_window:
  "w \<le> Suc i \<Longrightarrow> i < length xs \<Longrightarrow> length (window w xs i) = w"
  by (simp add: window_def)

lemma std_ddof1_sample:
  "2 \<le> length xs \<Longrightarrow> std_ddof1 xs = Fin (sample_std xs)"
  by (simp add: std_ddof1_def sample_std_def sum_sq_dev_def of_nat_diff)

lemma two_level_window:
  "window 20 (map close two_level) 19 = replicate 10 1 @ replicate 10 3"
  by (simp add: window_def two_level_def)

lemma two_level_mean: "mean (replicate 10 1 @ replicate 10 3) = 2"
  by (simp add: mean_def sum_list_replicate)

lemma two_level_sum_sq: "sum_sq_dev (replicate 10 1 @ replicate 10 3) = 20"
  by (simp add: sum_sq_dev_def two_level_mean sum_list_replicate)

text \<open>
  C7, as the specification states it, fails: the bands are not built from the population
  standard deviation. On ten closes of 1 followed by ten closes of 3 the mean is 2 and the
  population standard deviation is 1, so the specification's upper band is 4; the upper band
  computed is \<open>2 + 2 * sqrt (20 / 19)\<close>.
\<close>

theorem bands_not_population_std:
  "length (window 20 (map close two_level) 19) = 20
   \<and> population_std (window 20 (map close two_level) 19) = 1
   \<and> bb_middle (indicators two_level ! 19) = Fin 2
   \<and> bb_upper (indicators two_level ! 19) = Fin (2 + 2 * sqrt (20 / 19))
   \<and> bb_upper (indicators two_level ! 19)
       \<noteq> Fin (mean (window 20 (map close two_level) 19)
              + 2 * population_std (window 20 (map close two_level) 19))"
proof -
  have i: "19 < length two_level" by (simp add: two_level_def)
  have p: "population_std (window 20 (map close two_level) 19) = 1"
    by (simp add: two_level_window population_std_def two_level_sum_sq)
  have s: "std_ddof1 (replicate 10 1 @ replicate 10 3) = Fin (sqrt (20 / 19))"
    using two_level_sum_sq by (simp add: std_ddof1_def sum_sq_dev_def two_level_mean)
  have m: "bb_middle (indicators two_level ! 19) = Fin 2"
    by (simp add: indicators_nth [OF i] nth_rolling_mean i two_level_window two_level_mean)
  have u: "bb_upper (indicators two_level ! 19) = Fin (2 + 2 * sqrt (20 / 19))"
    by (simp add: indicators_nth [OF i] nth_bb_upper_series nth_rolling_mean nth_rolling_std i
        two_level_window two_level_mean s)
  have l: "length (window 20 (map close two_level) 19) = 20"
    by (simp add: two_level_window)
  have d: "bb_upper (indicators two_level ! 19)
       \<noteq> Fin (mean (window 20 (map close two_level) 19)
              + 2 * population_std (window 20 (map close two_level) 19))"
    unfolding u p by (simp add: two_level_window two_level_mean)
  from l p m u d show ?thesis by (intro conjI)
qed

text \<open>
  C7, amended. At every bar whose rolling window is full, the middle band is the simple
  moving average of the close over the window, and the upper and lower bands are the middle
  band plus and minus the rolling sample standard deviation (divisor \<open>n - 1\<close>, the default of
  the data-frame library) of the close over the window, times the multiplier; the strategy
  calls it with a window of 20 and the multiplier 2.
\<close>

theorem bollinger_bands_formula:
  assumes "2 \<le> period" "period \<le> Suc i" "i < length df"
  shows "bb_middle (calculate_bollinger_bands period std df ! i)
           = Fin (mean (window period (map close df) i))
       \<and> bb_upper (calculate_bollinger_bands period std df ! i)
           = Fin (mean (window period (map close df) i)
                  + sample_std (window period (map close df) i) * std)
       \<and> bb_lower (calculate_bollinger_bands period std df ! i)
           = Fin (mean (window period (map close df) i)
                  - sample_std (window period (map close df) i) * std)
       \<and> length (window period (map close df) i) = period"
proof -
  have l: "length (window period (map close df) i) = period"
    using assms by (simp add: length_window)
  have n: "\<not> Suc i < period" using assms by simp
  have s: "std_ddof1 (window period (map close df) i)
             = Fin (sample_std (window period (map close df) i))"
    using assms l by (simp add: std_ddof1_sample)
  show ?thesis
    using assms(3) n
    by (simp add: nth_calculate_bollinger_bands nth_bb_upper_series nth_bb_lower_series
        nth_rolling_mean nth_rolling_std s l fsub_def)
qed

theorem bollinger_bands_formula_witness:
  "(2 :: nat) \<le> 20 \<and> (20 :: nat) \<le> Suc 19 \<and> 19 < length (copy_frame two_level)
   \<and> bb_middle (calculate_bollinger_bands 20 2 (copy_frame two_level) ! 19) = Fin 2
   \<and> bb_upper (calculate_bollinger_bands 20 2 (copy_frame two_level) ! 19)
       = Fin (2 + sqrt (20 / 19) * 2)
   \<and> bb_lower (calculate_bollinger_bands 20 2 (copy_frame two_level) ! 19)
       = Fin (2 - sqrt (20 / 19) * 2)"
proof -
  have a: "(2 :: nat) \<le> 20" and b: "(20 :: nat) \<le> Suc 19" by simp_all
  have c: "19 < length (copy_frame two_level)" by (simp add: two_level_def)
  have w: "window 20 (map close (copy_frame two_level)) 19 = replicate 10 1 @ replicate 10 3"
    by (simp add: two_level_window)
  have s: "sample_std (replicate 10 1 @ replicate 10 3) = sqrt (20 / 19)"
    by (simp add: sample_std_def two_level_sum_sq)
  note t = bollinger_bands_formula [OF a b c, of 2]
  have 1: "bb_middle (calculate_bollinger_bands 20 2 (copy_frame two_level) ! 19) = Fin 2"
    using t [THEN conjunct1] by (simp only: w two_level_mean)
  have 2: "bb_upper (calculate_bollinger_bands 20 2 (copy_frame two_level) ! 19)
       = Fin (2 + sqrt (20 / 19) * 2)"
    using t [THEN conjunct2, THEN conjunct1] by (simp only: w two_level_mean s)
  have 3: "bb_lower (calculate_bollinger_bands 20 2 (copy_frame two_level) ! 19)
       = Fin (2 - sqrt (20 / 19) * 2)"
    using t [THEN conjunct2, THEN conjunct2, THEN conjunct1] by (simp only: w two_level_mean s)
  from a b c 1 2 3 show ?thesis by (intro conjI)
qed

section \<open>The relative strength index\<close>

lemma window_map: "window w (map f xs) i = map f (window w xs i)"
  by (simp add: window_def take_map drop_map)

lemma set_window: "set (window w xs i) \<subseteq> set xs"
  unfolding window_def
  by (meson set_take_subset set_drop_subset subset_trans)

lemma diff_elements: "d \<in> set (diff xs) \<Longrightarrow> d = NaN \<or> (\<exists>x. d = Fin x)"
  by (cases xs) auto

lemma where_pos_nonneg: "0 \<le> where_pos d"
  by (cases d) simp_all

lemma where_neg_nonpos: "where_neg d \<le> 0"
  by (cases d) simp_all

lemma mean_nonneg: "(\<forall>x \<in> set xs. 0 \<le> x) \<Longrightarrow> 0 \<le> mean xs"
  by (simp add: mean_def sum_list_nonneg)

lemma mean_zero_iff:
  assumes "\<forall>x \<in> set xs. 0 \<le> x" "xs \<noteq> []"
  shows "mean xs = 0 \<longleftrightarrow> (\<forall>x \<in> set xs. x = 0)"
  using assms by (simp add: mean_def sum_list_nonneg_eq_0_iff)

lemma avg_gain_nonneg: "0 \<le> avg_gain closes i"
  by (simp add: avg_gain_def mean_nonneg where_pos_nonneg)

lemma avg_down_nonneg: "0 \<le> avg_down closes i"
  by (simp add: avg_down_def mean_nonneg where_neg_nonpos)

lemma rsi_window_nonempty:
  assumes "13 \<le> i" "i < length closes"
  shows "rsi_window closes i \<noteq> []"
proof -
  have "length (rsi_window closes i) = 14"
    using assms by (simp add: rsi_window_def length_window)
  then show ?thesis by auto
qed

lemma avg_down_zero_iff:
  assumes "13 \<le> i" "i < length closes"
  shows "avg_down closes i = 0 \<longleftrightarrow> no_negative_delta closes i"
proof -
  have e: "(- where_neg d = 0) = (\<not> flt d (Fin 0))" if "d \<in> set (rsi_window closes i)" for d
  proof -
    from that set_window [of 14 "diff closes" i] have "d \<in> set (diff closes)"
      by (auto simp: rsi_window_def)
    from diff_elements [OF this] show ?thesis by auto
  qed
  have "avg_down closes i = 0
          \<longleftrightarrow> (\<forall>x \<in> set (map (\<lambda>d. - where_neg d) (rsi_window closes i)). x = 0)"
    unfolding avg_down_def
    using rsi_window_nonempty [OF assms] by (intro mean_zero_iff) (auto simp: where_neg_nonpos)
  also have "\<dots> \<longleftrightarrow> no_negative_delta closes i"
    using e by (auto simp: no_negative_delta_def)
  finally show ?thesis .
qed

lemma avg_gain_zero_iff:
  assumes "13 \<le> i" "i < length closes"
  shows "avg_gain closes i = 0 \<longleftrightarrow> no_positive_delta closes i"
proof -
  have e: "(where_pos d = 0) = (\<not> fgt d (Fin 0))" if "d \<in> set (rsi_window closes i)" for d
  proof -
    from that set_window [of 14 "diff closes" i] have "d \<in> set (diff closes)"
      by (auto simp: rsi_window_def)
    from diff_elements [OF this] show ?thesis by (auto simp: fgt_def)
  qed
  have "avg_gain closes i = 0
          \<longleftrightarrow> (\<forall>x \<in> set (map where_pos (rsi_window closes i)). x = 0)"
    unfolding avg_gain_def
    using rsi_window_nonempty [OF assms] by (intro mean_zero_iff) (auto simp: where_pos_nonneg)
  also have "\<dots> \<longleftrightarrow> no_positive_delta closes i"
    using e by (auto simp: no_positive_delta_def)
  finally show ?thesis .
qed

lemma rsi_series_full_window:
  assumes "13 \<le> i" "i < length closes"
  shows "rsi_series 14 closes ! i =
     fsub (Fin 100) (fdiv (Fin 100) (fadd (Fin 1)
       (fdiv (Fin (avg_gain closes i)) (Fin (avg_down closes i)))))"
  using assms
  by (simp add: nth_rsi_series nth_rolling_mean window_map avg_gain_def avg_down_def
      rsi_window_def)

lemma rsi_value_cases:
  assumes "0 \<le> g" "0 \<le> l"
  shows "fsub (Fin 100) (fdiv (Fin 100) (fadd (Fin 1) (fdiv (Fin g) (Fin l)))) =
     (if l = 0 then (if g = 0 then NaN else Fin 100) else Fin (100 - 100 / (1 + g / l)))"
proof (cases "l = 0")
  case True
  then show ?thesis using assms by (simp add: fsub_def)
next
  case False
  with assms have "0 \<le> g / l" by simp
  then have "1 + g / l \<noteq> 0" by linarith
  with False show ?thesis by (simp add: fsub_def)
qed

lemma rsi_range:
  assumes "0 \<le> g" "0 < (l :: real)"
  shows "0 \<le> 100 - 100 / (1 + g / l)" "100 - 100 / (1 + g / l) < 100"
proof -
  have q: "0 \<le> g / l" using assms by simp
  then have "100 / (1 + g / l) \<le> 100 / 1"
    by (intro divide_left_mono) simp_all
  then show "0 \<le> 100 - 100 / (1 + g / l)" by simp
  have "0 < 100 / (1 + g / l)" using q by simp
  then show "100 - 100 / (1 + g / l) < 100" by simp
qed

lemma rsi_series_cases:
  assumes "13 \<le> i" "i < length closes"
  shows "rsi_series 14 closes ! i =
     (if no_negative_delta closes i
      then (if no_positive_delta closes i then NaN else Fin 100)
      else Fin (100 - 100 / (1 + avg_gain closes i / avg_down closes i)))"
  unfolding rsi_series_full_window [OF assms]
    rsi_value_cases [OF avg_gain_nonneg avg_down_nonneg]
    avg_down_zero_iff [OF assms] avg_gain_zero_iff [OF assms]
  by (rule refl)

lemma diff_replicate: "set (diff (replicate n c)) \<subseteq> {NaN, Fin 0}"
proof (cases n)
  case 0
  then show ?thesis by simp
next
  case (Suc m)
  have "b - a = 0" if "(a, b) \<in> set (zip (c # replicate m c) (replicate m c))" for a b
    using set_zip_leftD [OF that] set_zip_rightD [OF that] by auto
  then show ?thesis unfolding Suc by auto
qed

lemma flat_window:
  assumes "closes = replicate n c"
  shows "no_negative_delta closes i" "no_positive_delta closes i"
proof -
  have "\<not> flt d (Fin 0) \<and> \<not> flt (Fin 0) d" if "d \<in> set (rsi_window closes i)" for d
  proof -
    from that set_window [of 14 "diff closes" i] diff_replicate [of n c]
    have "d = NaN \<or> d = Fin 0"
      by (auto simp: rsi_window_def assms)
    then show ?thesis by auto
  qed
  then show "no_negative_delta closes i" "no_positive_delta closes i"
    by (simp_all add: no_negative_delta_def no_positive_delta_def fgt_def)
qed

lemma late_jump_window:
  "rsi_window (map close late_jump) 14 = replicate 13 (Fin 0) @ [Fin 10]"
  by (simp add: rsi_window_def window_def late_jump_def mk_bar_def eval_nat_numeral)

lemma dip_and_jump_window:
  "rsi_window (map close (dip_and_jump 13)) 14 = replicate 12 (Fin 0) @ [Fin (- 1), Fin 11]"
  by (simp add: rsi_window_def window_def close_dip_and_jump eval_nat_numeral)

text \<open>
  C6, as the specification states it, fails on flat closes: with fifteen equal closes the
  window of the last bar is full and holds no negative delta, yet the RSI is not 100 but
  undefined. Average gain and average loss are both zero, and zero divided by zero is NaN.
\<close>

theorem flat_rsi_undefined:
  "(13 :: nat) \<le> 14 \<and> 14 < length (flat_bars 0 15 100 1)
   \<and> no_negative_delta (map close (flat_bars 0 15 100 1)) 14
   \<and> no_positive_delta (map close (flat_bars 0 15 100 1)) 14
   \<and> rsi (indicators (flat_bars 0 15 100 1) ! 14) = NaN
   \<and> rsi (indicators (flat_bars 0 15 100 1) ! 14) \<noteq> Fin 100"
proof -
  have a: "(13 :: nat) \<le> 14" by simp
  have i: "14 < length (flat_bars 0 15 100 1)" by simp
  have j: "14 < length (map close (flat_bars 0 15 100 1))" by simp
  have c: "map close (flat_bars 0 15 100 1) = replicate 15 100" by simp
  note f = flat_window [OF c, of 14]
  have r: "rsi (indicators (flat_bars 0 15 100 1) ! 14) = NaN"
    unfolding indicators_nth(3) [OF i] rsi_series_cases [OF a j] using f by simp
  then have n: "rsi (indicators (flat_bars 0 15 100 1) ! 14) \<noteq> Fin 100" by simp
  from a i f r n show ?thesis by (intro conjI)
qed

text \<open>
  C6, amended. At every bar whose trailing RSI window is full (index 13 or later; the window
  holds the 14 latest close deltas, the delta of the first bar counting as zero), the RSI
  is defined and lies in \<open>[0, 100]\<close> whenever the window holds a nonzero delta: with a negative
  delta in the window it is \<open>100 - 100 / (1 + average gain / average loss)\<close>, at least 0 and
  below 100; with no negative delta but a positive one the ratio is infinite and the RSI is
  100. With neither a negative nor a positive delta (flat closes) the RSI is undefined.
\<close>

theorem rsi_values:
  assumes "13 \<le> i" "i < length df"
  shows "(no_negative_delta (map close df) i \<and> no_positive_delta (map close df) i
            \<longrightarrow> rsi (calculate_rsi 14 df ! i) = NaN)
       \<and> (no_negative_delta (map close df) i \<and> \<not> no_positive_delta (map close df) i
            \<longrightarrow> rsi (calculate_rsi 14 df ! i) = Fin 100)
       \<and> (\<not> no_negative_delta (map close df) i
            \<longrightarrow> (\<exists>x. rsi (calculate_rsi 14 df ! i) = Fin x \<and> 0 \<le> x \<and> x < 100
                   \<and> x = 100 - 100 / (1 + avg_gain (map close df) i / avg_down (map close df) i)))"
proof -
  have j: "i < length (map close df)" using assms by simp
  have r: "rsi (calculate_rsi 14 df ! i) = rsi_series 14 (map close df) ! i"
    using assms by (simp add: nth_calculate_rsi)
  note c = rsi_series_cases [OF assms(1) j]
  have 1: "rsi (calculate_rsi 14 df ! i) = NaN"
    if "no_negative_delta (map close df) i \<and> no_positive_delta (map close df) i"
    using that by (simp add: r c)
  have 2: "rsi (calculate_rsi 14 df ! i) = Fin 100"
    if "no_negative_delta (map close df) i \<and> \<not> no_positive_delta (map close df) i"
    using that by (simp add: r c)
  have 3: "\<exists>x. rsi (calculate_rsi 14 df ! i) = Fin x \<and> 0 \<le> x \<and> x < 100
                   \<and> x = 100 - 100 / (1 + avg_gain (map close df) i / avg_down (map close df) i)"
    if n: "\<not> no_negative_delta (map close df) i"
  proof -
    from n avg_down_zero_iff [OF assms(1) j] avg_down_nonneg [of "map close df" i]
    have "0 < avg_down (map close df) i" by simp
    from rsi_range [OF avg_gain_nonneg this, of "map close df" i] n
    show ?thesis by (simp add: r c)
  qed
  from 1 2 3 show ?thesis by blast
qed

theorem rsi_values_witness:
  "(13 :: nat) \<le> 14
   \<and> 14 < length (copy_frame (flat_bars 0 15 100 1))
   \<and> no_negative_delta (map close (copy_frame (flat_bars 0 15 100 1))) 14
   \<and> no_positive_delta (map close (copy_frame (flat_bars 0 15 100 1))) 14
   \<and> rsi (calculate_rsi 14 (copy_frame (flat_bars 0 15 100 1)) ! 14) = NaN
   \<and> 14 < length (copy_frame late_jump)
   \<and> no_negative_delta (map close (copy_frame late_jump)) 14
   \<and> \<not> no_positive_delta (map close (copy_frame late_jump)) 14
   \<and> rsi (calculate_rsi 14 (copy_frame late_jump) ! 14) = Fin 100
   \<and> 14 < length (copy_frame (dip_and_jump 13))
   \<and> \<not> no_negative_delta (map close (copy_frame (dip_and_jump 13))) 14
   \<and> (\<exists>x. rsi (calculate_rsi 14 (copy_frame (dip_and_jump 13)) ! 14) = Fin x
          \<and> 0 \<le> x \<and> x < 100)"
proof -
  have a: "(13 :: nat) \<le> 14" by simp
  have i1: "14 < length (copy_frame (flat_bars 0 15 100 1))" by simp
  have i2: "14 < length (copy_frame late_jump)" by (simp add: late_jump_def)
  have i3: "14 < length (copy_frame (dip_and_jump 13))" by simp
  have c: "map close (copy_frame (flat_bars 0 15 100 1)) = replicate 15 100" by simp
  note f = flat_window [OF c, of 14]
  have n2: "no_negative_delta (map close (copy_frame late_jump)) 14"
    and p2: "\<not> no_positive_delta (map close (copy_frame late_jump)) 14"
    by (simp_all add: no_negative_delta_def no_positive_delta_def late_jump_window fgt_def)
  have n3: "\<not> no_negative_delta (map close (copy_frame (dip_and_jump 13))) 14"
    by (simp add: no_negative_delta_def dip_and_jump_window)
  have 1: "rsi (calculate_rsi 14 (copy_frame (flat_bars 0 15 100 1)) ! 14) = NaN"
    by (rule rsi_values [OF a i1, THEN conjunct1, THEN mp, OF conjI [OF f]])
  have 2: "rsi (calculate_rsi 14 (copy_frame late_jump) ! 14) = Fin 100"
    by (rule rsi_values [OF a i2, THEN conjunct2, THEN conjunct1, THEN mp, OF conjI [OF n2 p2]])
  from rsi_values [OF a i3, THEN conjunct2, THEN conjunct2, THEN mp, OF n3]
  have 3: "\<exists>x. rsi (calculate_rsi 14 (copy_frame (dip_and_jump 13)) ! 14) = Fin x
          \<and> 0 \<le> x \<and> x < 100"
    by (elim exE conjE) (intro exI conjI, assumption+)
  from a i1 f 1 i2 n2 p2 2 i3 n3 3 show ?thesis by (intro conjI)
qed

lemma map_constant:
  "(\<forall>x \<in> set xs. f x = c) \<Longrightarrow> map f xs = replicate (length xs) c"
  by (induction xs) simp_all

lemma ewm_mean_constant: "ewm_mean s (replicate n c) = replicate n c"
proof (cases n)
  case 0
  then show ?thesis by simp
next
  case (Suc k)
  from ewm_mean_replicate [of s k c "[]"] show ?thesis
    unfolding Suc by simp
qed

lemma macd_series_constant: "macd_series f s (replicate n c) = replicate n 0"
  by (simp add: macd_series_def Let_def ewm_mean_constant zip_replicate map_replicate_const)

lemma window_replicate:
  "window w (replicate n c) i = replicate (min w (n - (Suc i - w))) c"
  by (simp add: window_def)

lemma mean_replicate: "0 < k \<Longrightarrow> mean (replicate k c) = c"
  by (simp add: mean_def sum_list_replicate)

lemma std_ddof1_replicate: "std_ddof1 (replicate k c) = NaN \<or> std_ddof1 (replicate k c) = Fin 0"
proof (cases "k \<le> 1")
  case True
  then show ?thesis by (simp add: std_ddof1_def)
next
  case False
  then have "0 < k" by simp
  then show ?thesis
    by (simp add: std_ddof1_def mean_replicate sum_list_replicate)
qed

lemma flat_rsi:
  assumes "i < n"
  shows "rsi_series 14 (replicate n c) ! i = NaN"
proof (cases "Suc i < 14")
  case True
  then show ?thesis
    using assms by (simp add: nth_rsi_series nth_rolling_mean fsub_def)
next
  case False
  then have a: "13 \<le> i" by simp
  have j: "i < length (replicate n c)" using assms by simp
  show ?thesis
    unfolding rsi_series_cases [OF a j]
    using flat_window [OF refl, of n c i] by simp
qed

lemma flat_middle:
  assumes "i < n"
  shows "rolling_mean 20 (replicate n c) ! i = NaN \<or> rolling_mean 20 (replicate n c) ! i = Fin c"
proof (cases "Suc i < 20")
  case True
  then show ?thesis using assms by (simp add: nth_rolling_mean)
next
  case False
  then have "0 < min 20 (n - (Suc i - 20))" using assms by simp
  from mean_replicate [OF this] False show ?thesis
    using assms by (simp add: nth_rolling_mean window_replicate)
qed

lemma flat_std:
  assumes "i < n"
  shows "rolling_std 20 (replicate n c) ! i = NaN \<or> rolling_std 20 (replicate n c) ! i = Fin 0"
proof (cases "Suc i < 20")
  case True
  then show ?thesis using assms by (simp add: nth_rolling_std)
next
  case False
  then have e: "rolling_std 20 (replicate n c) ! i
      = std_ddof1 (replicate (min 20 (n - (Suc i - 20))) c)"
    using assms by (simp add: nth_rolling_std window_replicate)
  show ?thesis
    unfolding e by (rule std_ddof1_replicate)
qed

lemma flat_bands:
  assumes "i < n"
  shows "\<not> flt (Fin c) (bb_lower_series 20 2 (replicate n c) ! i)"
    and "\<not> fgt (Fin c) (bb_upper_series 20 2 (replicate n c) ! i)"
  using assms flat_middle [OF assms, of c] flat_std [OF assms, of c]
  by (auto simp: nth_bb_lower_series nth_bb_upper_series fsub_def fgt_def)

lemma flat_shift:
  assumes "i < n"
  shows "shift1 (replicate n c) ! i = NaN \<or> shift1 (replicate n c) ! i = Fin c"
proof (cases i)
  case 0
  with assms show ?thesis by (cases n) simp_all
next
  case (Suc k)
  with assms shift1_nth [of i "replicate n c"] show ?thesis by simp
qed

lemma flat_vol_sig: "pc = NaN \<or> pc = Fin c \<Longrightarrow> vol_sig v vma c pc = 0"
  by (auto simp: vol_sig_def Let_def fgt_def)

lemma flat_scores:
  assumes c: "map close bars = replicate (length bars) c"
    and i: "i < length bars" and j: "j < length bars"
  shows "scores (indicators bars ! i) (indicators bars ! j) = (0, 0)"
proof -
  let ?l = "indicators bars ! i" and ?p = "indicators bars ! j"
  have 1: "rsi_rule ?l x = x" for x
    using flat_rsi [OF i, of c]
    by (cases x) (simp add: rsi_rule_def indicators_nth [OF i] c fgt_def)
  have 2: "macd_rule ?l ?p x = x" for x
    using i j
    by (cases x) (simp add: macd_rule_def indicators_nth [OF i] indicators_nth [OF j] c
        macd_series_constant ewm_mean_constant fgt_def)
  have cl: "close (bars ! i) = c"
    using nth_map [OF i, of close] i by (simp add: c)
  have 3: "bollinger_rule ?l x = x" for x
    using flat_bands [OF i, of c]
    by (cases x) (simp add: bollinger_rule_def indicators_nth [OF i] c cl)
  have 4: "ema_rule ?l ?p x = x" for x
    using i j
    by (cases x) (simp add: ema_rule_def indicators_nth [OF i] indicators_nth [OF j] c
        ewm_mean_constant fgt_def)
  have 5: "volume_rule ?l x = x" for x
    using flat_vol_sig [OF flat_shift [OF i, of c]]
    by (cases x) (simp add: volume_rule_def indicators_nth [OF i] c cl)
  have 6: "trend_rule ?l x = x" for x
    using i
    by (cases x) (simp add: trend_rule_def indicators_nth [OF i] c cl ewm_mean_constant fgt_def)
  show ?thesis by (simp add: scores_def 1 2 3 4 5 6)
qed

lemma flat_signal_hold:
  assumes "\<forall>b \<in> set bars. close b = c"
  shows "generate_signal bars = HOLD"
proof (cases "length bars < 2")
  case True
  then show ?thesis by (simp add: generate_signal_def)
next
  case False
  from map_constant [OF assms] have c: "map close bars = replicate (length bars) c" .
  from False have "length bars - 1 < length bars" "length bars - 2 < length bars" by simp_all
  from flat_scores [OF c this] False show ?thesis
    by (simp add: generate_signal_def score_rows_def decide_def)
qed

section \<open>Runs without a trade\<close>

lemma set_tail_take: "set (tail n (take k xs)) \<subseteq> set xs"
  unfolding tail_def
  by (rule subset_trans [OF set_drop_subset set_take_subset])

lemma flat_window_hold:
  assumes "\<forall>b \<in> set bars. close b = c"
  shows "generate_signal (tail 100 (take k bars)) = HOLD"
proof -
  from assms set_tail_take [of 100 k bars]
  have "\<forall>b \<in> set (tail 100 (take k bars)). close b = c" by blast
  then show ?thesis by (rule flat_signal_hold)
qed

lemma hold_step:
  assumes "holding s = None"
  shows "trade_step rnd cfg HOLD price d s
     = Inr (s\<lparr>equity_curve := equity_curve s @ [\<lparr>date = d, equity = capital s\<rparr>]\<rparr>)"
  using assms by (simp add: trade_step_def execute_trades_def track_equity_def)

lemma flat_simulate:
  assumes "\<forall>b \<in> set bars. close b = c"
  shows "holding s = None \<Longrightarrow>
     \<exists>s'. simulate rnd cfg bars is s = Inr s' \<and> holding s' = None \<and> trades s' = trades s
       \<and> capital s' = capital s
       \<and> map equity (equity_curve s')
           = map equity (equity_curve s) @ replicate (length is) (capital s)"
proof (induction "is" arbitrary: s)
  case Nil
  then show ?case by simp
next
  case (Cons i "is")
  let ?s1 = "s\<lparr>equity_curve := equity_curve s
      @ [\<lparr>date = timestamp (last (take (Suc i) bars)), equity = capital s\<rparr>]\<rparr>"
  have b: "bar_step rnd cfg bars i s = Inr ?s1"
    by (simp add: bar_step_def Let_def flat_window_hold [OF assms] hold_step [OF Cons.prems])
  have h: "holding ?s1 = None" using Cons.prems by simp
  from Cons.IH [OF h] obtain s' where
    r: "simulate rnd cfg bars is ?s1 = Inr s'" and h': "holding s' = None"
    and t: "trades s' = trades ?s1" and c: "capital s' = capital ?s1"
    and e: "map equity (equity_curve s')
           = map equity (equity_curve ?s1) @ replicate (length is) (capital ?s1)"
    by (elim exE conjE)
  have 1: "simulate rnd cfg bars (i # is) s = Inr s'" by (simp add: b r)
  have 2: "trades s' = trades s" using t by simp
  have 3: "capital s' = capital s" using c by simp
  have 4: "map equity (equity_curve s')
           = map equity (equity_curve s) @ replicate (length (i # is)) (capital s)"
    using e by simp
  show ?case
    by (rule exI [of _ s']) (intro conjI 1 h' 2 3 4)
qed

lemma run_backtest_no_trades:
  assumes "run_ledger rnd cfg bars initial = Inr (Some s)" "trades s = []"
  shows "run_backtest rnd cfg bars initial = Inr None"
  using assms by (simp add: run_backtest_def calculate_statistics_def)

lemma flat_run:
  assumes l: "100 \<le> length bars" and f: "\<forall>b \<in> set bars. close b = c"
  shows "\<exists>s. run_ledger rnd cfg (Some bars) initial = Inr (Some s)
     \<and> trades s = [] \<and> capital s = initial
     \<and> map equity (equity_curve s) = replicate (length bars - 100) initial"
proof -
  have h: "holding (init_sim initial) = None" by (simp add: init_sim_def)
  from flat_simulate [OF f h, of rnd cfg "[100..<length bars]"] obtain s where
    r: "simulate rnd cfg bars [100..<length bars] (init_sim initial) = Inr s"
    and h': "holding s = None"
    and t: "trades s = trades (init_sim initial)" and c: "capital s = capital (init_sim initial)"
    and e: "map equity (equity_curve s) = map equity (equity_curve (init_sim initial))
         @ replicate (length [100..<length bars]) (capital (init_sim initial))"
    by (elim exE conjE)
  have 1: "run_ledger rnd cfg (Some bars) initial = Inr (Some s)"
    using l by (simp add: run_ledger_def r close_open_position_def h')
  have 2: "trades s = []" using t by (simp add: init_sim_def)
  have 3: "capital s = initial" using c by (simp add: init_sim_def)
  have 4: "map equity (equity_curve s) = replicate (length bars - 100) initial"
    using e by (simp add: init_sim_def)
  show ?thesis
    by (rule exI [of _ s]) (intro conjI 1 2 3 4)
qed

text \<open>
  C8, as the specification states it, fails: with an empty trade list the statistics
  calculator produces no report, so there is no win rate, no final capital and no maximal
  drawdown to read. It returns \<open>None\<close> at once, and so does the whole run on 102 flat bars
  of close 100 and volume 1.
\<close>

theorem no_report_on_flat_bars:
  "calculate_statistics double [] [\<lparr>date = 100, equity = 10000\<rparr>] 10000 (PyNumber 10000)
     = Inr None
   \<and> length (flat_bars 0 102 100 1) = 102
   \<and> map close (flat_bars 0 102 100 1) = replicate 102 100
   \<and> map volume (flat_bars 0 102 100 1) = replicate 102 1
   \<and> run_backtest double default_config (Some (flat_bars 0 102 100 1)) 10000 = Inr None"
proof -
  have 1: "calculate_statistics double [] [\<lparr>date = 100, equity = 10000\<rparr>] 10000
      (PyNumber 10000) = Inr None"
    by (simp add: calculate_statistics_def)
  have l: "100 \<le> length (flat_bars 0 102 100 1)" by simp
  have f: "\<forall>b \<in> set (flat_bars 0 102 100 1). close b = 100"
    by (auto simp: flat_bars_def mk_bar_def)
  from flat_run [OF l f, of double default_config 10000] obtain s where
    "run_ledger double default_config (Some (flat_bars 0 102 100 1)) 10000 = Inr (Some s)"
    "trades s = []"
    by (elim exE conjE)
  then have 2: "run_backtest double default_config (Some (flat_bars 0 102 100 1)) 10000
      = Inr None"
    by (rule run_backtest_no_trades)
  from 1 2 show ?thesis by simp
qed

text \<open>
  C8, amended. With an empty trade list the statistics calculator returns no report, and
  so does every run that records no trade. On 100 or more bars of one close price, whatever
  the volumes, the run completes with zero trades, the capital at its end is the initial
  capital, every equity snapshot (one for each bar from index 100 on) is the initial
  capital, so that equity never falls below its peak, and the run returns no report. This
  holds for every rounding of the arithmetic, that of doubles included.
\<close>

theorem no_trades_no_report:
  "calculate_statistics rnd [] equity_list initial final = Inr None
   \<and> (run_ledger rnd cfg data initial = Inr (Some s0) \<and> trades s0 = []
        \<longrightarrow> run_backtest rnd cfg data initial = Inr None)
   \<and> (100 \<le> length bars \<and> (\<forall>b \<in> set bars. close b = c) \<longrightarrow>
        (\<exists>s. run_ledger rnd cfg (Some bars) initial = Inr (Some s)
           \<and> trades s = [] \<and> capital s = initial
           \<and> map equity (equity_curve s) = replicate (length bars - 100) initial)
        \<and> run_backtest rnd cfg (Some bars) initial = Inr None)"
proof -
  have 1: "calculate_statistics rnd [] equity_list initial final = Inr None"
    by (simp add: calculate_statistics_def)
  have 2: "run_backtest rnd cfg data initial = Inr None"
    if "run_ledger rnd cfg data initial = Inr (Some s0) \<and> trades s0 = []"
    using that by (simp add: run_backtest_no_trades)
  have 3: "(\<exists>s. run_ledger rnd cfg (Some bars) initial = Inr (Some s)
           \<and> trades s = [] \<and> capital s = initial
           \<and> map equity (equity_curve s) = replicate (length bars - 100) initial)
        \<and> run_backtest rnd cfg (Some bars) initial = Inr None"
    if a: "100 \<le> length bars \<and> (\<forall>b \<in> set bars. close b = c)"
  proof -
    note r = flat_run [OF a [THEN conjunct1] a [THEN conjunct2], of rnd cfg initial]
    from r obtain s where
      "run_ledger rnd cfg (Some bars) initial = Inr (Some s)" "trades s = []"
      by (elim exE conjE)
    then have "run_backtest rnd cfg (Some bars) initial = Inr None"
      by (rule run_backtest_no_trades)
    with r show ?thesis by (intro conjI)
  qed
  from 1 2 3 show ?thesis by blast
qed

theorem no_trades_no_report_witness:
  "calculate_statistics double [] [] 10000 (PyNumber 10000) = Inr None
   \<and> 100 \<le> length (flat_bars 0 102 100 1)
   \<and> (\<exists>s. run_ledger double default_config (Some (flat_bars 0 102 100 1)) 10000
             = Inr (Some s)
        \<and> trades s = [] \<and> capital s = 10000
        \<and> map equity (equity_curve s) = [10000, 10000])
   \<and> run_backtest double default_config (Some (flat_bars 0 102 100 1)) 10000 = Inr None"
proof -
  have l: "100 \<le> length (flat_bars 0 102 100 1)" by simp
  have f: "\<forall>b \<in> set (flat_bars 0 102 100 1). close b = 100"
    by (auto simp: flat_bars_def mk_bar_def)
  note t = no_trades_no_report [of double "[]" 10000 "PyNumber 10000" default_config
      "Some (flat_bars 0 102 100 1)" _ "flat_bars 0 102 100 1" 100]
  have e: "replicate (length (flat_bars 0 102 100 1) - 100) (10000 :: real) = [10000, 10000]"
    by (simp add: numeral_2_eq_2)
  note r = t [THEN conjunct2, THEN conjunct2, THEN mp, OF conjI [OF l f]]
  from t [THEN conjunct1] l r [THEN conjunct1, unfolded e] r [THEN conjunct2]
  show ?thesis by (intro conjI)
qed

section \<open>Insufficient data\<close>






lemma equity_close_open_position [simp]:
  "equity_curve (close_open_position rnd bars s) = equity_curve s"
  by (simp add: close_open_position_def Let_def split: option.splits)




end
